(* ===== verification/Model_Prelude.thy ===== *)
theory Model_Prelude
  imports Complex_Main "HOL-Library.Multiset"
begin

text \<open>
  Shared vocabulary of the development. A numpy array of shape \<open>(n, d)\<close> is a list of
  rows, each row a \<open>real list\<close>; a label vector \<open>y\<close> (numpy \<open>intp\<close>) is a
  \<open>nat list\<close>. Floating-point rounding is not modelled: numpy's float64 arithmetic is
  read as exact real arithmetic. Fancy indexing with a permutation (\<open>X[perm]\<close>, what
  \<open>sklearn.utils.shuffle\<close> does to every array it is given) is \<open>permute\<close>.
  The collection \<open>model_simps\<close> gathers the evaluation rules of the model's
  operations; the lemmas below on permutations and columns are shared by the dataset,
  classifier and page theories.
\<close>

named_theorems model_simps "evaluation rules of the model's operations"

type_synonym row = "real list"
type_synonym matrix = "real list list"
type_synonym labels = "nat list"

text \<open>\<open>X[:, j]\<close>: column \<open>j\<close> of a matrix.\<close>

definition col :: "matrix \<Rightarrow> nat \<Rightarrow> real list" where
  "col X j = map (\<lambda>r. r ! j) X"

text \<open>\<open>X[perm]\<close>: the rows of \<open>X\<close> in the order given by an index array.\<close>

definition permute :: "nat list \<Rightarrow> 'a list \<Rightarrow> 'a list" where
  "permute perm xs = map (\<lambda>i. xs ! i) perm"

text \<open>An index array is a permutation of \<open>0..n-1\<close>: what the random generator
  behind \<open>shuffle\<close> produces.\<close>

definition valid_perm :: "nat \<Rightarrow> nat list \<Rightarrow> bool" where
  "valid_perm n perm \<longleftrightarrow> length perm = n \<and> distinct perm \<and> list_all (\<lambda>i. i < n) perm"

text \<open>The Python exceptions the modelled code can raise.\<close>

datatype py_error = ZeroDivisionError | ValueError

text \<open>\<open>(X ** 2).sum(1)\<close> for one row: the squared Euclidean norm.\<close>

definition row_sq_norm :: "row \<Rightarrow> real" where
  "row_sq_norm r = sum_list (map (\<lambda>a. a ^ 2) r)"

text \<open>A matrix whose rows all have \<open>d\<close> entries (numpy's shape invariant).\<close>

definition rows_dim :: "nat \<Rightarrow> matrix \<Rightarrow> bool" where
  "rows_dim d X \<longleftrightarrow> list_all (\<lambda>r. length r = d) X"

subsection \<open>Columns\<close>

lemma length_col [simp]: "length (col X j) = length X"
  by (simp add: col_def)

lemma col_append [simp]: "col (X @ Y) j = col X j @ col Y j"
  by (simp add: col_def)

lemma col_Nil [simp]: "col [] j = []" and col_Cons [simp]: "col (r # X) j = r ! j # col X j"
  by (simp_all add: col_def)

subsection \<open>Permutations\<close>

lemma length_permute [simp]: "length (permute perm xs) = length perm"
  by (simp add: permute_def)

lemma valid_perm_set: "valid_perm n perm \<Longrightarrow> set perm = set [0..<n]"
proof -
  assume v: "valid_perm n perm"
  then have sub: "set perm \<subseteq> set [0..<n]"
    by (auto simp: valid_perm_def list_all_iff)
  from v have "card (set perm) = card (set [0..<n])"
    by (simp only: valid_perm_def distinct_card length_upt distinct_upt)
  with sub show ?thesis
    by (simp only: card_subset_eq finite_set)
qed

lemma valid_perm_mset: "valid_perm n perm \<Longrightarrow> mset perm = mset [0..<n]"
proof -
  assume v: "valid_perm n perm"
  then have "mset perm = mset_set (set perm)"
    by (simp add: valid_perm_def mset_set_set)
  also have "set perm = set [0..<n]"
    by (rule valid_perm_set [OF v])
  also have "mset_set (set [0..<n]) = mset [0..<n]"
    by (rule mset_set_set) simp
  finally show ?thesis .
qed

lemma mset_permute [model_simps]:
  assumes "valid_perm (length xs) perm"
  shows "mset (permute perm xs) = mset xs"
proof -
  have "mset (permute perm xs) = image_mset (\<lambda>i. xs ! i) (mset perm)"
    by (simp add: permute_def)
  also have "\<dots> = image_mset (\<lambda>i. xs ! i) (mset [0..<length xs])"
    using valid_perm_mset [OF assms] by simp
  also have "\<dots> = mset (map (\<lambda>i. xs ! i) [0..<length xs])"
    by (simp only: mset_map)
  also have "\<dots> = mset xs"
    by (simp add: map_nth)
  finally show ?thesis .
qed

lemma set_permute [model_simps]:
  "valid_perm (length xs) perm \<Longrightarrow> set (permute perm xs) = set xs"
  by (metis mset_permute set_mset_mset)

lemma zip_permute [model_simps]:
  assumes "valid_perm n perm" and "length xs = n" and "length ys = n"
  shows "zip (permute perm xs) (permute perm ys) = permute perm (zip xs ys)"
proof -
  have "\<forall>i\<in>set perm. i < n"
    using assms(1) by (simp add: valid_perm_def list_all_iff)
  then show ?thesis
    using assms(2,3) by (induction perm) (auto simp: permute_def)
qed

lemma list_all_permute [model_simps]:
  "valid_perm (length xs) perm \<Longrightarrow> list_all P (permute perm xs) = list_all P xs"
  by (simp add: list_all_iff set_permute)

lemma count_permute [model_simps]:
  "valid_perm (length xs) perm \<Longrightarrow> count_list (permute perm xs) a = count_list xs a"
  by (metis count_mset mset_permute)

lemma valid_perm_upt: "valid_perm n [0..<n]"
  by (simp add: valid_perm_def list_all_iff)

lemma permute_upt [simp]: "permute [0..<length xs] xs = xs"
  by (simp add: permute_def map_nth)

lemma row_sq_norm_2 [simp]: "row_sq_norm [a, b] = a\<^sup>2 + b\<^sup>2"
  by (simp add: row_sq_norm_def)

lemma row_sq_norm_nonneg [simp]: "0 \<le> row_sq_norm r"
  by (induction r) (simp_all add: row_sq_norm_def)

lemma set_zip_permute [model_simps]:
  assumes "valid_perm n perm" and "length xs = n" and "length ys = n"
  shows "set (zip (permute perm xs) (permute perm ys)) = set (zip xs ys)"
  using assms zip_permute [OF assms] set_permute [of "zip xs ys" perm] by simp

text \<open>Splitting points of the plane into their coordinate arrays \<open>X[:, 0]\<close>, \<open>X[:, 1]\<close>
  and zipping the arrays back gives the points again.\<close>

lemma col_roundtrip:
  "rows_dim 2 X \<Longrightarrow> map2 (\<lambda>a b. [a, b]) (col X 0) (col X 1) = X"
proof (induction X)
  case Nil
  then show ?case by simp
next
  case (Cons r X)
  then have "length r = 2" and "rows_dim 2 X"
    by (simp_all add: rows_dim_def)
  then obtain a b where "r = [a, b]"
    by (auto simp: length_Suc_conv numeral_2_eq_2)
  with Cons.IH \<open>rows_dim 2 X\<close> show ?case by simp
qed

end
