(* ===== verification/Linspace.thy ===== *)
theory Linspace
  imports Model_Prelude
begin

text \<open>
  \<open>numpy.linspace(start, stop, num=50, endpoint=True)\<close>, which the page calls for the
  candidate lines (\<open>np.linspace(-1, 3.5)\<close>, src/src/pages/machine_learning.py line 47),
  which \<open>make_circles\<close> calls for the ring angles (\<open>endpoint=False\<close>) and
  \<open>plot_svc_decision_function\<close> for its 30-point evaluation grid. The definition follows
  numpy's own body: \<open>div\<close>, \<open>step = delta / div\<close>, \<open>arange(num) * step + start\<close>,
  and the final fix-up \<open>y[-1] = stop\<close> when the end point is included. A divisor of 0
  (\<open>num = 1\<close> with the end point) takes numpy's \<open>y = y * delta\<close> branch.
  The lemmas show the closed form (the fix-up is redundant in exact arithmetic), the
  length, the end points, the spacing, monotonicity and the bounds.
\<close>

definition linspace_div :: "nat \<Rightarrow> bool \<Rightarrow> nat" where
  "linspace_div num endpoint = (if endpoint then num - 1 else num)"

definition linspace :: "real \<Rightarrow> real \<Rightarrow> nat \<Rightarrow> bool \<Rightarrow> real list" where
  "linspace start stop num endpoint =
     (let divisor = linspace_div num endpoint;
          delta = stop - start;
          y = map real [0..<num];
          y = (if 0 < divisor then map (\<lambda>t. t * (delta / real divisor)) y
               else map (\<lambda>t. t * delta) y);
          y = map (\<lambda>t. t + start) y
      in if endpoint \<and> 1 < num then y[num - 1 := stop] else y)"

text \<open>numpy's \<open>step\<close>, and grid point \<open>i\<close> before the end-point fix-up.\<close>

definition linspace_step :: "real \<Rightarrow> real \<Rightarrow> nat \<Rightarrow> bool \<Rightarrow> real" where
  "linspace_step start stop num endpoint = (stop - start) / real (linspace_div num endpoint)"

definition linspace_pt :: "real \<Rightarrow> real \<Rightarrow> nat \<Rightarrow> bool \<Rightarrow> nat \<Rightarrow> real" where
  "linspace_pt start stop num endpoint i = start + real i * linspace_step start stop num endpoint"

subsection \<open>Closed form\<close>

lemma linspace_pt_last:
  "1 < num \<Longrightarrow> linspace_pt start stop num True (num - 1) = stop"
  by (simp add: linspace_pt_def linspace_step_def linspace_div_def)

lemma linspace_raw:
  "linspace start stop num endpoint =
     (let y = map (linspace_pt start stop num endpoint) [0..<num]
      in if endpoint \<and> 1 < num then y[num - 1 := stop] else y)"
proof -
  let ?d = "linspace_div num endpoint"
  have "map (\<lambda>t. t + start)
          (if 0 < ?d then map (\<lambda>t. t * ((stop - start) / real ?d)) (map real [0..<num])
           else map (\<lambda>t. t * (stop - start)) (map real [0..<num])) =
        map (linspace_pt start stop num endpoint) [0..<num]"
  proof (rule nth_equalityI)
    fix i assume "i < length (map (\<lambda>t. t + start)
          (if 0 < ?d then map (\<lambda>t. t * ((stop - start) / real ?d)) (map real [0..<num])
           else map (\<lambda>t. t * (stop - start)) (map real [0..<num])))"
    then have i: "i < num" by (simp split: if_splits)
    show "map (\<lambda>t. t + start)
          (if 0 < ?d then map (\<lambda>t. t * ((stop - start) / real ?d)) (map real [0..<num])
           else map (\<lambda>t. t * (stop - start)) (map real [0..<num])) ! i =
        map (linspace_pt start stop num endpoint) [0..<num] ! i"
    proof (cases "0 < ?d")
      case True
      with i show ?thesis by (simp add: linspace_pt_def linspace_step_def)
    next
      case False
      with i have "i = 0" by (auto simp: linspace_div_def split: if_splits)
      with i False show ?thesis by (simp add: linspace_pt_def)
    qed
  qed simp
  then show ?thesis
    by (simp only: linspace_def Let_def)
qed

text \<open>In exact arithmetic the fix-up \<open>y[-1] = stop\<close> changes nothing: numpy's routine
  equals the reference grid \<open>start + i * step\<close>.\<close>

lemma linspace_closed_form:
  "linspace start stop num endpoint = map (linspace_pt start stop num endpoint) [0..<num]"
proof (cases "endpoint \<and> 1 < num")
  case True
  let ?y = "map (linspace_pt start stop num endpoint) [0..<num]"
  from True have "?y ! (num - 1) = stop"
    using linspace_pt_last [of num start stop] by simp
  then have "?y[num - 1 := stop] = ?y"
    by (metis list_update_id)
  with True show ?thesis
    by (simp only: linspace_raw Let_def if_True if_cancel)
next
  case False
  then show ?thesis by (simp only: linspace_raw Let_def if_False)
qed

lemma length_linspace [simp]: "length (linspace start stop num endpoint) = num"
  by (simp add: linspace_closed_form)

lemma nth_linspace [model_simps]:
  "i < num \<Longrightarrow> linspace start stop num endpoint ! i = linspace_pt start stop num endpoint i"
  by (simp add: linspace_closed_form)

lemma set_linspace:
  "set (linspace start stop num endpoint) = linspace_pt start stop num endpoint ` {..<num}"
  by (auto simp: linspace_closed_form)

subsection \<open>End points, spacing, order and bounds\<close>

lemma linspace_pt_0 [simp]: "linspace_pt start stop num endpoint 0 = start"
  by (simp add: linspace_pt_def)

lemma hd_linspace: "0 < num \<Longrightarrow> hd (linspace start stop num endpoint) = start"
  by (simp add: linspace_closed_form hd_map upt_conv_Cons)

lemma last_linspace: "1 < num \<Longrightarrow> last (linspace start stop num True) = stop"
  using linspace_pt_last [of num start stop] by (simp add: linspace_closed_form last_map)

lemma linspace_pt_step:
  "linspace_pt start stop num endpoint (Suc i) - linspace_pt start stop num endpoint i =
     linspace_step start stop num endpoint"
  by (simp add: linspace_pt_def distrib_right)

lemma linspace_step_nonneg: "start \<le> stop \<Longrightarrow> 0 \<le> linspace_step start stop num endpoint"
  by (simp add: linspace_step_def)

lemma linspace_pt_mono:
  assumes "start \<le> stop" and "i \<le> j"
  shows "linspace_pt start stop num endpoint i \<le> linspace_pt start stop num endpoint j"
  using mult_right_mono [OF _ linspace_step_nonneg [OF assms(1)], of "real i" "real j"] assms(2)
  by (simp add: linspace_pt_def)

lemma linspace_pt_le_stop:
  assumes "start \<le> stop" and "i \<le> linspace_div num endpoint"
  shows "linspace_pt start stop num endpoint i \<le> stop"
proof (cases "linspace_div num endpoint = 0")
  case True
  with assms show ?thesis by (simp add: linspace_pt_def)
next
  case False
  let ?d = "real (linspace_div num endpoint)"
  have "real i * (stop - start) \<le> ?d * (stop - start)"
    using assms by (simp add: mult_right_mono)
  then have "real i * linspace_step start stop num endpoint \<le> stop - start"
    using False by (simp add: linspace_step_def field_simps)
  then show ?thesis by (simp add: linspace_pt_def)
qed

lemma linspace_pt_less_stop:
  assumes "start < stop" and "i < linspace_div num endpoint"
  shows "linspace_pt start stop num endpoint i < stop"
proof -
  let ?d = "real (linspace_div num endpoint)"
  have "real i * (stop - start) < ?d * (stop - start)"
    using assms by (simp add: mult_strict_right_mono)
  then have "real i * linspace_step start stop num endpoint < stop - start"
    using assms(2) by (simp add: linspace_step_def field_simps)
  then show ?thesis by (simp add: linspace_pt_def)
qed

lemma sorted_linspace:
  "start \<le> stop \<Longrightarrow> sorted (linspace start stop num endpoint)"
  by (auto simp: sorted_iff_nth_mono nth_linspace intro: linspace_pt_mono)

lemma linspace_bounds:
  assumes "start \<le> stop" and "x \<in> set (linspace start stop num True)"
  shows "start \<le> x \<and> x \<le> stop"
proof -
  from assms(2) obtain i where i: "i < num" and x: "x = linspace_pt start stop num True i"
    by (auto simp: set_linspace)
  have "start \<le> x"
    using linspace_pt_mono [OF assms(1), of 0 i num True] x by simp
  moreover have "x \<le> stop"
    using linspace_pt_le_stop [OF assms(1)] i x by (simp add: linspace_div_def)
  ultimately show ?thesis ..
qed

lemma linspace_open_bounds:
  assumes "start < stop" and "x \<in> set (linspace start stop num False)"
  shows "start \<le> x \<and> x < stop"
proof -
  from assms(2) obtain i where i: "i < num" and x: "x = linspace_pt start stop num False i"
    by (auto simp: set_linspace)
  have "start \<le> x"
    using linspace_pt_mono [of start stop 0 i num False] assms(1) x by simp
  moreover have "x < stop"
    using linspace_pt_less_stop [OF assms(1)] i x by (simp add: linspace_div_def)
  ultimately show ?thesis ..
qed

end
