(* ===== verification/Pyplot.thy ===== *)
theory Pyplot
  imports Linspace
begin

text \<open>
  The part of matplotlib the page drives (spec section 9, the Renderer capability):
  pyplot's store of figures and its current figure, each figure's axes, the artists drawn
  on an axes (scatter, line, contour, 3-D scatter), axis limits and the 3-D view. The
  page holds figures and axes by reference (\<open>fig, ax = plt.subplots(1)\<close>) and also
  draws through pyplot's implicit current axes (\<open>plt.scatter\<close>, \<open>plt.gca()\<close>), so
  the state is an explicit store: a figure is an index into \<open>figures\<close>, an axes a
  pair (figure, axes index). Every operation returns the updated store. Axis limits that
  were not set are computed by autoscaling with matplotlib's default 5\<percent> margins
  and its \<open>nonsingular\<close> expansion; \<open>artist_ok\<close> states the array shapes matplotlib
  checks before it draws. Rendering itself (pixels, colours) is not modelled.
\<close>

datatype artist =
    Scatter "real list" "real list" "labels option" real "string option" bool
  | Line2D "real list" "real list" string
  | Contour "real list" "real list" "real list list" "real list" "string list"
  | Scatter3D "real list" "real list" "real list" labels real string

record axes =
  artists :: "artist list"
  xlim :: "(real \<times> real) option"
  ylim :: "(real \<times> real) option"
  is3d :: bool
  view :: "(real \<times> real) option"
  axis_labels :: "string list"

record figure =
  fig_axes :: "axes list"

record pyplot =
  figures :: "figure list"
  current :: nat

type_synonym axref = "nat \<times> nat"

definition empty_axes :: "bool \<Rightarrow> axes" where
  "empty_axes three_d = \<lparr>artists = [], xlim = None, ylim = None, is3d = three_d, view = None,
     axis_labels = []\<rparr>"

definition pyplot_init :: pyplot where
  "pyplot_init = \<lparr>figures = [], current = 0\<rparr>"

subsection \<open>Figures and axes\<close>

text \<open>\<open>plt.figure()\<close>: a new empty figure, which becomes current.\<close>

definition plt_figure :: "pyplot \<Rightarrow> pyplot \<times> nat" where
  "plt_figure st =
     (let f = length (figures st)
      in (st\<lparr>figures := figures st @ [\<lparr>fig_axes = []\<rparr>], current := f\<rparr>, f))"

text \<open>\<open>fig.add_subplot(projection=...)\<close>: a new axes on figure \<open>f\<close>.\<close>

definition add_subplot :: "pyplot \<Rightarrow> nat \<Rightarrow> bool \<Rightarrow> pyplot \<times> axref" where
  "add_subplot st f three_d =
     (let fig = figures st ! f;
          a = length (fig_axes fig)
      in (st\<lparr>figures := (figures st)[f := fig\<lparr>fig_axes := fig_axes fig @ [empty_axes three_d]\<rparr>]\<rparr>,
          (f, a)))"

text \<open>\<open>fig, ax = plt.subplots(1)\<close>: a new current figure holding one 2-D axes.\<close>

definition subplots :: "pyplot \<Rightarrow> pyplot \<times> nat \<times> axref" where
  "subplots st =
     (let (st, f) = plt_figure st;
          (st, a) = add_subplot st f False
      in (st, f, a))"

text \<open>\<open>plt.gca()\<close>: the last axes of the current figure, creating a figure or an axes
  when there is none.\<close>

definition gca :: "pyplot \<Rightarrow> pyplot \<times> axref" where
  "gca st =
     (let (st, f) = (if current st < length (figures st) then (st, current st) else plt_figure st);
          n = length (fig_axes (figures st ! f))
      in if n = 0 then add_subplot st f False else (st, (f, n - 1)))"

definition get_axes :: "pyplot \<Rightarrow> axref \<Rightarrow> axes" where
  "get_axes st r = fig_axes (figures st ! fst r) ! snd r"

definition update_axes :: "pyplot \<Rightarrow> axref \<Rightarrow> (axes \<Rightarrow> axes) \<Rightarrow> pyplot" where
  "update_axes st r g =
     (let fig = figures st ! fst r
      in st\<lparr>figures := (figures st)[fst r := fig\<lparr>fig_axes := (fig_axes fig)[snd r := g (fig_axes fig ! snd r)]\<rparr>]\<rparr>)"

text \<open>Drawing an artist (\<open>ax.scatter\<close>, \<open>ax.plot\<close>, \<open>ax.contour\<close>, \<open>ax.scatter3D\<close>).\<close>

definition ax_add :: "pyplot \<Rightarrow> axref \<Rightarrow> artist \<Rightarrow> pyplot" where
  "ax_add st r art = update_axes st r (\<lambda>ax. ax\<lparr>artists := artists ax @ [art]\<rparr>)"

definition ax_set_xlim :: "pyplot \<Rightarrow> axref \<Rightarrow> real \<times> real \<Rightarrow> pyplot" where
  "ax_set_xlim st r l = update_axes st r (\<lambda>ax. ax\<lparr>xlim := Some l\<rparr>)"

definition ax_set_ylim :: "pyplot \<Rightarrow> axref \<Rightarrow> real \<times> real \<Rightarrow> pyplot" where
  "ax_set_ylim st r l = update_axes st r (\<lambda>ax. ax\<lparr>ylim := Some l\<rparr>)"

definition ax_view_init :: "pyplot \<Rightarrow> axref \<Rightarrow> real \<Rightarrow> real \<Rightarrow> pyplot" where
  "ax_view_init st r elev azim = update_axes st r (\<lambda>ax. ax\<lparr>view := Some (elev, azim)\<rparr>)"

definition ax_set_label :: "pyplot \<Rightarrow> axref \<Rightarrow> string \<Rightarrow> pyplot" where
  "ax_set_label st r s = update_axes st r (\<lambda>ax. ax\<lparr>axis_labels := axis_labels ax @ [s]\<rparr>)"

subsection \<open>Reading the limits back\<close>

fun artist_xdata :: "artist \<Rightarrow> real list" where
  "artist_xdata (Scatter xs _ _ _ _ _) = xs"
| "artist_xdata (Line2D xs _ _) = xs"
| "artist_xdata (Contour xs _ _ _ _) = xs"
| "artist_xdata (Scatter3D xs _ _ _ _ _) = xs"

fun artist_ydata :: "artist \<Rightarrow> real list" where
  "artist_ydata (Scatter _ ys _ _ _ _) = ys"
| "artist_ydata (Line2D _ ys _) = ys"
| "artist_ydata (Contour _ ys _ _ _) = ys"
| "artist_ydata (Scatter3D _ ys _ _ _ _) = ys"

text \<open>\<open>matplotlib.transforms.nonsingular(vmin, vmax, expander=0.05)\<close> on equal end
  points, then the default margin of 5\<percent> on each side; \<open>(0, 1)\<close> without data.\<close>

definition autoscale :: "real list \<Rightarrow> real \<times> real" where
  "autoscale d =
     (if d = [] then (0, 1)
      else
        let lo = Min (set d); hi = Max (set d);
            (lo, hi) = (if lo = hi then (if lo = 0 then (-0.05, 0.05)
                                         else (lo - 0.05 * \<bar>lo\<bar>, hi + 0.05 * \<bar>hi\<bar>))
                        else (lo, hi));
            delta = (hi - lo) * 0.05
        in (lo - delta, hi + delta))"

definition get_xlim :: "axes \<Rightarrow> real \<times> real" where
  "get_xlim ax = (case xlim ax of Some l \<Rightarrow> l | None \<Rightarrow> autoscale (concat (map artist_xdata (artists ax))))"

definition get_ylim :: "axes \<Rightarrow> real \<times> real" where
  "get_ylim ax = (case ylim ax of Some l \<Rightarrow> l | None \<Rightarrow> autoscale (concat (map artist_ydata (artists ax))))"

text \<open>A point of the plane is inside the view of an axes, strictly, in both coordinates.\<close>

definition in_view :: "axes \<Rightarrow> real list \<Rightarrow> bool" where
  "in_view a p \<longleftrightarrow> fst (get_xlim a) < p ! 0 \<and> p ! 0 < snd (get_xlim a) \<and>
     fst (get_ylim a) < p ! 1 \<and> p ! 1 < snd (get_ylim a)"

subsection \<open>Well-shaped artists\<close>

text \<open>The shapes matplotlib requires of the data of an artist, or raises \<open>ValueError\<close>:
  \<open>scatter\<close> takes \<open>x\<close>, \<open>y\<close> and the colour values \<open>c\<close> of one length,
  \<open>plot\<close> takes \<open>x\<close> and \<open>y\<close> of one length, \<open>contour\<close> takes one row of \<open>Z\<close>
  per \<open>x\<close> value, each as long as \<open>y\<close>, and strictly increasing levels, one line style
  per level; \<open>scatter3D\<close> takes \<open>x\<close>, \<open>y\<close>, \<open>z\<close> and \<open>c\<close> of one length.\<close>

fun artist_ok :: "artist \<Rightarrow> bool" where
  "artist_ok (Scatter xs ys c s cmap rings) =
     (length ys = length xs \<and> (case c of None \<Rightarrow> True | Some l \<Rightarrow> length l = length xs))"
| "artist_ok (Line2D xs ys style) = (length ys = length xs)"
| "artist_ok (Contour xs ys P levels styles) =
     (length P = length xs \<and> list_all (\<lambda>r. length r = length ys) P \<and>
      sorted_wrt (<) levels \<and> length styles = length levels)"
| "artist_ok (Scatter3D xs ys zs c s cmap) =
     (length ys = length xs \<and> length zs = length xs \<and> length c = length xs)"

definition figure_ok :: "figure \<Rightarrow> bool" where
  "figure_ok f \<longleftrightarrow> list_all (\<lambda>a. list_all artist_ok (artists a)) (fig_axes f)"

subsection \<open>References and the frame of an update\<close>

definition valid_ref :: "pyplot \<Rightarrow> axref \<Rightarrow> bool" where
  "valid_ref st r \<longleftrightarrow> fst r < length (figures st) \<and> snd r < length (fig_axes (figures st ! fst r))"

lemma length_figures_update [simp]: "length (figures (update_axes st r g)) = length (figures st)"
  by (simp add: update_axes_def Let_def)

lemma current_update [simp]: "current (update_axes st r g) = current st"
  by (simp add: update_axes_def Let_def)

lemma length_fig_axes_update [simp]:
  "length (fig_axes (figures (update_axes st r g) ! f)) = length (fig_axes (figures st ! f))"
  by (cases "fst r < length (figures st)")
    (auto simp: update_axes_def Let_def nth_list_update list_update_beyond)

lemma valid_ref_update [simp]: "valid_ref (update_axes st r g) r' = valid_ref st r'"
  by (simp add: valid_ref_def)

text \<open>Drawing on one axes changes that axes only: the aliasing the page relies on when
  it draws through a stored \<open>ax\<close> and through \<open>plt.gca()\<close>.\<close>

lemma get_axes_update [model_simps]:
  "valid_ref st r \<Longrightarrow>
   get_axes (update_axes st r g) r' = (if r' = r then g (get_axes st r) else get_axes st r')"
  by (cases r; cases r')
    (auto simp: valid_ref_def get_axes_def update_axes_def Let_def nth_list_update)

lemma figures_update_other [model_simps]:
  "f \<noteq> fst r \<Longrightarrow> figures (update_axes st r g) ! f = figures st ! f"
  by (simp add: update_axes_def Let_def)

lemma subplots_fresh [model_simps]:
  "subplots st = (st', f, r) \<Longrightarrow>
     f = length (figures st) \<and> r = (f, 0) \<and> current st' = f \<and> valid_ref st' r \<and>
     get_axes st' r = empty_axes False \<and> figures st' = figures st @ [\<lparr>fig_axes = [empty_axes False]\<rparr>]"
  by (auto simp: subplots_def plt_figure_def add_subplot_def Let_def valid_ref_def get_axes_def)

lemma gca_current [model_simps]:
  "current st < length (figures st) \<Longrightarrow> fig_axes (figures st ! current st) \<noteq> [] \<Longrightarrow>
   gca st = (st, (current st, length (fig_axes (figures st ! current st)) - 1))"
  by (simp add: gca_def Let_def)

lemma get_xlim_set [simp]: "get_xlim (ax\<lparr>xlim := Some l\<rparr>) = l"
  by (simp add: get_xlim_def)

lemma get_ylim_set [simp]: "get_ylim (ax\<lparr>ylim := Some l\<rparr>) = l"
  by (simp add: get_ylim_def)

subsection \<open>The newest figure\<close>

text \<open>The page draws on the figure it has just created, which has one axes and is the
  last of the store. The following lemmas give the store after each operation there.\<close>

lemma update_last_axes [model_simps]:
  "figures st = fs @ [\<lparr>fig_axes = [a]\<rparr>] \<Longrightarrow>
   figures (update_axes st (length fs, 0) g) = fs @ [\<lparr>fig_axes = [g a]\<rparr>]"
  by (simp add: update_axes_def Let_def)

lemma subplots_last [model_simps]:
  "subplots st = (st', f, r) \<Longrightarrow>
   figures st' = figures st @ [\<lparr>fig_axes = [empty_axes False]\<rparr>] \<and>
   f = length (figures st) \<and> r = (length (figures st), 0) \<and> current st' = length (figures st)"
  using subplots_fresh [of st st' f r] by simp

lemma gca_last [model_simps]:
  "figures st = fs @ [\<lparr>fig_axes = [a]\<rparr>] \<Longrightarrow> current st = length fs \<Longrightarrow>
   gca st = (st, (length fs, 0))"
  by (simp add: gca_def Let_def)

lemma get_axes_last [model_simps]:
  "figures st = fs @ [\<lparr>fig_axes = [a]\<rparr>] \<Longrightarrow> get_axes st (length fs, 0) = a"
  by (simp add: get_axes_def)

lemma valid_ref_last [model_simps]:
  "figures st = fs @ [\<lparr>fig_axes = [a]\<rparr>] \<Longrightarrow> valid_ref st (length fs, 0)"
  by (simp add: valid_ref_def)

text \<open>Two updates of the same axes are one update by the composed function.\<close>

lemma update_axes_twice:
  "update_axes (update_axes st r g) r h = update_axes st r (h \<circ> g)"
proof (cases "fst r < length (figures st)")
  case True
  then show ?thesis
    by (cases "snd r < length (fig_axes (figures st ! fst r))")
      (simp_all add: update_axes_def Let_def list_update_beyond)
next
  case False
  then show ?thesis by (simp add: update_axes_def Let_def list_update_beyond)
qed

text \<open>The autoscaled range holds every data value strictly inside: the margins are
  5 per cent of the data's span, and a single value is widened first.\<close>

lemma autoscale_contains:
  assumes "x \<in> set d"
  shows "fst (autoscale d) < x \<and> x < snd (autoscale d)"
proof -
  let ?lo = "Min (set d)" and ?hi = "Max (set d)"
  have ne: "d \<noteq> []" using assms by auto
  have lo: "?lo \<le> x" and hi: "x \<le> ?hi"
    using assms by simp_all
  show ?thesis
  proof (cases "?lo = ?hi")
    case False
    then have lt: "?lo < ?hi" using lo hi by linarith
    have e: "autoscale d = (?lo - (?hi - ?lo) / 20, ?hi + (?hi - ?lo) / 20)"
      using ne False by (simp add: autoscale_def Let_def)
    show ?thesis
      unfolding e using lo hi lt by (simp add: field_simps)
  next
    case True
    then have x: "x = ?lo" using lo hi by linarith
    show ?thesis
    proof (cases "?lo = 0")
      case True
      then show ?thesis using ne x \<open>?lo = ?hi\<close> by (simp add: autoscale_def Let_def)
    next
      case False
      then have "0 < \<bar>?lo\<bar>" by simp
      then show ?thesis using ne x \<open>?lo = ?hi\<close> False
        by (simp add: autoscale_def Let_def)
    qed
  qed
qed

text \<open>An axes whose y range is autoscaled shows every y value of its artists inside it.\<close>

lemma get_ylim_contains:
  assumes "ylim a = None" and "art \<in> set (artists a)" and "v \<in> set (artist_ydata art)"
  shows "fst (get_ylim a) < v \<and> v < snd (get_ylim a)"
proof -
  have "v \<in> set (concat (map artist_ydata (artists a)))"
    using assms(2,3) by auto
  then show ?thesis
    using assms(1) autoscale_contains by (simp add: get_ylim_def)
qed

end
