(* ===== verification/Classifier.thy ===== *)
theory Classifier
  imports Model_Prelude
begin

text \<open>
  The fitted \<open>sklearn.svm.SVC(kernel='linear')\<close> the page builds (lines 57--59 and 81 of
  src/src/pages/machine_learning.py). A fitted linear SVC is its weight row
  \<open>coef_[0]\<close>, its \<open>intercept_[0]\<close>, its \<open>support_vectors_\<close> and its sorted
  \<open>classes_\<close>; \<open>decision_function\<close> and \<open>predict\<close> are those of scikit-learn's
  binary case. The fit itself (libsvm's solver) is a library routine the page only
  calls: a run of the page takes it as an input (\<open>svc_fit\<close> of \<open>Page\<close>), so the
  lemmas here hold for every fitted model. The decision function is affine, so along
  a segment it interpolates its end values (\<open>decision_comb\<close>); hence a training
  point on the segment between two points of another label defeats every linear
  classifier (\<open>convex_combination_misclassified\<close>).
\<close>

record linear_svc =
  coef :: row
  intercept :: real
  support_vectors :: matrix
  classes :: labels

definition dot :: "row \<Rightarrow> row \<Rightarrow> real" where
  "dot u v = sum_list (map2 (*) u v)"

text \<open>\<open>decision_function(X) = X @ coef_.T + intercept_\<close>, one row at a time.\<close>

definition decision_function :: "linear_svc \<Rightarrow> row \<Rightarrow> real" where
  "decision_function m x = dot (coef m) x + intercept m"

text \<open>Binary \<open>predict\<close>: \<open>classes_[(decision_function(X) > 0).astype(int)]\<close>.\<close>

definition predict :: "linear_svc \<Rightarrow> row \<Rightarrow> nat" where
  "predict m x = (if 0 < decision_function m x then classes m ! 1 else classes m ! 0)"

text \<open>The number of training points \<open>predict\<close> gets wrong (the in-sample
  misclassification count of spec section 8).\<close>

definition n_errors :: "linear_svc \<Rightarrow> matrix \<Rightarrow> labels \<Rightarrow> nat" where
  "n_errors m X y = length (filter (\<lambda>(x, l). predict m x \<noteq> l) (zip X y))"

subsection \<open>Linearity of the decision function\<close>

definition comb :: "real \<Rightarrow> row \<Rightarrow> row \<Rightarrow> row" where
  "comb t a b = map2 (\<lambda>p q. t * p + (1 - t) * q) a b"

lemma dot_comb:
  "length a = length b \<Longrightarrow> dot w (comb t a b) = t * dot w a + (1 - t) * dot w b"
proof (induction w arbitrary: a b)
  case Nil
  then show ?case by (simp add: dot_def comb_def)
next
  case (Cons v w)
  then show ?case
    by (cases a; cases b) (simp_all add: dot_def comb_def algebra_simps)
qed

lemma decision_comb:
  "length a = length b \<Longrightarrow>
   decision_function m (comb t a b) = t * decision_function m a + (1 - t) * decision_function m b"
  by (simp add: decision_function_def dot_comb algebra_simps)

lemma n_errors_zero_iff:
  "n_errors m X y = 0 \<longleftrightarrow> (\<forall>(x, l)\<in>set (zip X y). predict m x = l)"
  by (auto simp: n_errors_def filter_empty_conv)

subsection \<open>What no linear classifier can do\<close>

text \<open>if a training point lies on the segment
  between two training points of another label, every linear classifier misclassifies at
  least one training point: the data are not linearly separable.\<close>

theorem convex_combination_misclassified:
  assumes "(a, l) \<in> set (zip X y)" and "(b, l) \<in> set (zip X y)"
    and "(comb t a b, l') \<in> set (zip X y)" and "l \<noteq> l'"
    and "length a = length b" and "0 \<le> t" and "t \<le> 1"
  shows "0 < n_errors m X y"
proof (rule ccontr)
  assume "\<not> 0 < n_errors m X y"
  then have ok: "\<forall>(x, k)\<in>set (zip X y). predict m x = k"
    using n_errors_zero_iff by auto
  then have pa: "predict m a = l" and pb: "predict m b = l" and pc: "predict m (comb t a b) = l'"
    using assms(1-3) by auto
  have dc: "decision_function m (comb t a b) =
      t * decision_function m a + (1 - t) * decision_function m b"
    using assms(5) by (rule decision_comb)
  show False
  proof (cases "0 < decision_function m a \<longleftrightarrow> 0 < decision_function m b")
    case True
    have "0 < decision_function m (comb t a b) \<longleftrightarrow> 0 < decision_function m a"
    proof (cases "0 < decision_function m a")
      case pos: True
      with True have "0 < decision_function m b" by simp
      with pos assms(6,7) have "0 < t * decision_function m a + (1 - t) * decision_function m b"
        by (cases "t = 0") (auto intro: add_pos_nonneg add_nonneg_pos)
      with pos dc show ?thesis by simp
    next
      case neg: False
      with True have "decision_function m b \<le> 0" by simp
      with neg assms(6,7) have "t * decision_function m a + (1 - t) * decision_function m b \<le> 0"
        by (simp add: add_nonpos_nonpos mult_nonneg_nonpos)
      with neg dc show ?thesis by simp
    qed
    with pa pc assms(4) show False by (simp add: predict_def)
  next
    case False
    then have "classes m ! 0 = classes m ! 1"
      using pa pb by (auto simp: predict_def split: if_splits)
    with pa pc assms(4) show False by (simp add: predict_def split: if_splits)
  qed
qed

end
