(* ===== verification/SVC_Plot.thy ===== *)
theory SVC_Plot
  imports Pyplot Classifier
begin

text \<open>
  \<open>plot_svc_decision_function(model, ax=None, plot_support=True)\<close>, imported by the page
  from its \<open>utils\<close> module (not under src/; modelled from spec section 4.3): on the
  current axes it reads the view limits, evaluates the decision function on a 30 by 30
  grid spanning them (\<open>np.linspace\<close>, \<open>np.meshgrid\<close>, \<open>decision_function\<close>,
  \<open>reshape\<close>), draws the contours at levels \<open>-1, 0, 1\<close> (dashed, solid, dashed),
  circles the support vectors when asked, and sets the limits back to those it read.
  The spec asks only for a dense grid; 30 points per axis is the size of the helper as it
  is published, and no property depends on it. The
  lemmas give the axes after the call, show that the view is unchanged and that no
  other axes is touched, and that the contour and the rings have the array shapes
  matplotlib requires.
\<close>

text \<open>\<open>Y, X = np.meshgrid(y, x)\<close>; \<open>P = model.decision_function(xy).reshape(X.shape)\<close>:
  \<open>P[i][j]\<close> is the decision value at \<open>(x[i], y[j])\<close>.\<close>

definition svc_grid :: "linear_svc \<Rightarrow> real list \<Rightarrow> real list \<Rightarrow> real list list" where
  "svc_grid model x y = map (\<lambda>xi. map (\<lambda>yj. decision_function model [xi, yj]) y) x"

definition boundary_contour :: "linear_svc \<Rightarrow> real \<times> real \<Rightarrow> real \<times> real \<Rightarrow> artist" where
  "boundary_contour model xl yl =
     (let x = linspace (fst xl) (snd xl) 30 True;
          y = linspace (fst yl) (snd yl) 30 True
      in Contour x y (svc_grid model x y) [-1, 0, 1] [''--'', ''-'', ''--''])"

definition support_rings :: "linear_svc \<Rightarrow> artist" where
  "support_rings model =
     Scatter (col (support_vectors model) 0) (col (support_vectors model) 1) None 300 None True"

definition plot_svc_decision_function :: "linear_svc \<Rightarrow> bool \<Rightarrow> pyplot \<Rightarrow> pyplot" where
  "plot_svc_decision_function model plot_support st =
     (let (st, ax) = gca st;
          xl = get_xlim (get_axes st ax);
          yl = get_ylim (get_axes st ax);
          st = ax_add st ax (boundary_contour model xl yl);
          st = (if plot_support then ax_add st ax (support_rings model) else st);
          st = ax_set_xlim st ax xl;
          st = ax_set_ylim st ax yl
      in st)"

text \<open>What the call does to the axes it draws on.\<close>

definition svc_overlay :: "linear_svc \<Rightarrow> bool \<Rightarrow> axes \<Rightarrow> axes" where
  "svc_overlay model ps a =
     a\<lparr>artists := artists a @ boundary_contour model (get_xlim a) (get_ylim a) #
                     (if ps then [support_rings model] else []),
       xlim := Some (get_xlim a), ylim := Some (get_ylim a)\<rparr>"

lemma plot_svc_axes:
  assumes "gca st = (st, r)" and "valid_ref st r"
  shows "get_axes (plot_svc_decision_function model ps st) r =
    (get_axes st r)\<lparr>artists := artists (get_axes st r) @
        boundary_contour model (get_xlim (get_axes st r)) (get_ylim (get_axes st r)) #
        (if ps then [support_rings model] else []),
      xlim := Some (get_xlim (get_axes st r)), ylim := Some (get_ylim (get_axes st r))\<rparr>"
  using assms
  by (simp add: plot_svc_decision_function_def ax_add_def ax_set_xlim_def ax_set_ylim_def
      get_axes_update Let_def)

text \<open>drawing the decision boundary leaves the view of the
  current axes as it was: the x and y limits read afterwards are those before the call,
  although the contour grid and the support rings are new data on the axes.\<close>

theorem plot_svc_keeps_view:
  assumes "gca st = (st, r)" and "valid_ref st r"
  shows "get_xlim (get_axes (plot_svc_decision_function model ps st) r) = get_xlim (get_axes st r) \<and>
         get_ylim (get_axes (plot_svc_decision_function model ps st) r) = get_ylim (get_axes st r)"
  using plot_svc_axes [OF assms] by (simp add: get_xlim_def get_ylim_def)

text \<open>the call draws on the current axes only: every other
  axes of every figure is unchanged.\<close>

theorem plot_svc_other_axes:
  assumes "gca st = (st, r)" and "valid_ref st r" and "r' \<noteq> r"
  shows "get_axes (plot_svc_decision_function model ps st) r' = get_axes st r'"
  using assms
  by (simp add: plot_svc_decision_function_def ax_add_def ax_set_xlim_def ax_set_ylim_def
      get_axes_update Let_def)

lemma length_svc_grid [simp]: "length (svc_grid model x y) = length x"
  by (simp add: svc_grid_def)

lemma plot_svc_last:
  assumes "figures st = fs @ [\<lparr>fig_axes = [a]\<rparr>]" and "current st = length fs"
  shows "figures (plot_svc_decision_function model ps st) = fs @ [\<lparr>fig_axes = [svc_overlay model ps a]\<rparr>] \<and>
         current (plot_svc_decision_function model ps st) = length fs"
  using assms
  by (simp add: plot_svc_decision_function_def gca_last get_axes_last ax_add_def ax_set_xlim_def
      ax_set_ylim_def update_last_axes svc_overlay_def Let_def)

text \<open>The boundary and the rings are well-shaped artists.\<close>

lemma boundary_contour_ok [simp]: "artist_ok (boundary_contour model xl yl)"
  by (simp add: boundary_contour_def Let_def svc_grid_def list_all_iff)

lemma support_rings_ok [simp]: "artist_ok (support_rings model)"
  by (simp add: support_rings_def)

end
