(* ===== verification/Datasets.thy ===== *)
theory Datasets
  imports Linspace
begin

text \<open>
  The two synthetic generators the page calls: \<open>make_blobs(n_samples=50, centers=2,
  random_state=0, cluster_std=0.60)\<close> (src/src/pages/machine_learning.py line 42) and
  \<open>make_circles(100, factor=.1, noise=.1)\<close> (line 78). Both are scikit-learn routines;
  they are modelled after scikit-learn's algorithm as spec section 4.1 describes it. The
  random generator is not modelled as a source of randomness: its draws are explicit
  inputs (the cluster centres, the standard-normal noise rows and the shuffle
  permutation), so the generators are functions of their draws, which is determinism
  under a fixed seed. Errors that scikit-learn raises are \<open>Inl\<close> values.
\<close>

subsection \<open>Random draws\<close>

record blob_draws =
  centers_draw :: matrix
  normal_draw :: matrix
  shuffle_draw :: "nat list"

record circle_draws =
  circle_shuffle :: "nat list"
  circle_normal :: matrix

text \<open>\<open>loc + scale * z\<close> row by row: \<open>generator.normal(loc, scale)\<close> given the
  standard-normal draws \<open>z\<close>, and \<open>X += generator.normal(scale=noise)\<close>.\<close>

definition add_scaled :: "real \<Rightarrow> matrix \<Rightarrow> matrix \<Rightarrow> matrix" where
  "add_scaled scale X Z = map2 (\<lambda>r z. map2 (\<lambda>a e. a + scale * e) r z) X Z"

subsection \<open>make_blobs\<close>

text \<open>
  \<^verbatim>\<open>n_samples_per_center = [int(n_samples // n_centers)] * n_centers
for i in range(n_samples % n_centers):
    n_samples_per_center[i] += 1\<close>
\<close>

definition incr_at :: "nat list \<Rightarrow> nat \<Rightarrow> nat list" where
  "incr_at l i = l[i := l ! i + 1]"

definition n_samples_per_center :: "nat \<Rightarrow> nat \<Rightarrow> nat list" where
  "n_samples_per_center n_samples n_centers =
     foldl incr_at
       (replicate n_centers (n_samples div n_centers)) [0..<n_samples mod n_centers]"

text \<open>\<open>y[start_idx:end_idx] = i\<close> for the \<open>i\<close>-th block of the cumulative sums.\<close>

definition blob_labels :: "nat list \<Rightarrow> labels" where
  "blob_labels counts = concat (map (\<lambda>(i, k). replicate k i) (zip [0..<length counts] counts))"

text \<open>\<open>X[start_idx:end_idx] = generator.normal(loc=centers[i], scale=std)\<close>: row \<open>j\<close>
  of the unshuffled \<open>X\<close> is the centre of its label plus \<open>std\<close> times the \<open>j\<close>-th
  standard-normal row.\<close>

definition blob_points :: "matrix \<Rightarrow> real \<Rightarrow> matrix \<Rightarrow> labels \<Rightarrow> matrix" where
  "blob_points centers std Z y = add_scaled std (map (\<lambda>i. centers ! i) y) Z"

definition make_blobs ::
  "nat \<Rightarrow> nat \<Rightarrow> real \<Rightarrow> blob_draws \<Rightarrow> py_error + (matrix \<times> labels)" where
  "make_blobs n_samples n_centers cluster_std draws =
     (if n_centers = 0 then Inl ZeroDivisionError
      else if cluster_std < 0 then Inl ValueError
      else
        let counts = n_samples_per_center n_samples n_centers;
            y = blob_labels counts;
            X = blob_points (centers_draw draws) cluster_std (normal_draw draws) y
        in Inr (permute (shuffle_draw draws) X, permute (shuffle_draw draws) y))"

text \<open>The draws \<open>random_state\<close> produces are well formed: \<open>n_centers\<close> centres and
  \<open>n_samples\<close> noise rows in the plane, and a permutation of the sample indices.\<close>

definition blob_draws_ok :: "nat \<Rightarrow> nat \<Rightarrow> blob_draws \<Rightarrow> bool" where
  "blob_draws_ok n_samples n_centers d \<longleftrightarrow>
     length (centers_draw d) = n_centers \<and> rows_dim 2 (centers_draw d) \<and>
     length (normal_draw d) = n_samples \<and> rows_dim 2 (normal_draw d) \<and>
     valid_perm n_samples (shuffle_draw d)"

subsubsection \<open>The per-centre counts\<close>

lemma foldl_incr_length [simp]:
  "length (foldl incr_at l is) = length l"
  by (induction "is" arbitrary: l) (simp_all add: incr_at_def)

lemma nth_incr_at:
  "j < length l \<Longrightarrow> incr_at l j ! i = l ! i + (if i = j then 1 else 0)"
  by (simp add: incr_at_def nth_list_update)

lemma foldl_incr_nth:
  "k \<le> length l \<Longrightarrow> i < length l \<Longrightarrow>
   foldl incr_at l [0..<k] ! i = l ! i + (if i < k then 1 else 0)"
proof (induction k arbitrary: i)
  case 0
  then show ?case by simp
next
  case (Suc k)
  then have "foldl incr_at l [0..<Suc k] ! i = foldl incr_at l [0..<k] ! i + (if i = k then 1 else 0)"
    by (simp add: nth_incr_at)
  with Suc.IH [of i] Suc.prems show ?case by simp
qed

lemma n_samples_per_center_closed_form:
  "0 < n_centers \<Longrightarrow> n_samples_per_center n_samples n_centers =
     map (\<lambda>i. n_samples div n_centers + (if i < n_samples mod n_centers then 1 else 0))
       [0..<n_centers]"
  by (rule nth_equalityI) (simp_all add: n_samples_per_center_def foldl_incr_nth)

lemma sum_list_incr_prefix:
  "sum_list (map (\<lambda>i. a + (if i < m then 1 else 0)) [0..<c]) = c * a + min m (c :: nat)"
  by (induction c) auto

lemma length_n_samples_per_center [simp]:
  "length (n_samples_per_center n_samples n_centers) = n_centers"
  by (simp add: n_samples_per_center_def)

lemma sum_n_samples_per_center:
  "0 < n_centers \<Longrightarrow> sum_list (n_samples_per_center n_samples n_centers) = n_samples"
  by (simp add: n_samples_per_center_closed_form sum_list_incr_prefix)

subsubsection \<open>Labels of consecutive blocks\<close>

lemma length_blocks:
  "length xs = length ks \<Longrightarrow>
   length (concat (map (\<lambda>(i, k). replicate k i) (zip xs ks))) = sum_list ks"
  by (induction xs ks rule: list_induct2) simp_all

lemma count_list_replicate: "count_list (replicate k x) y = (if x = y then k else 0)"
  by (induction k) auto

lemma count_blocks:
  "length xs = length ks \<Longrightarrow> distinct xs \<Longrightarrow> j < length xs \<Longrightarrow>
   count_list (concat (map (\<lambda>(i, k). replicate k i) (zip xs ks))) (xs ! j) = ks ! j"
proof (induction xs ks arbitrary: j rule: list_induct2)
  case Nil
  then show ?case by simp
next
  case (Cons x xs k ks)
  have fresh: "count_list (concat (map (\<lambda>(i, k). replicate k i) (zip xs ks))) x = 0"
    using Cons.prems(1) by (auto simp: count_list_0_iff dest: set_zip_leftD)
  show ?case
  proof (cases j)
    case 0
    with fresh show ?thesis by (simp add: count_list_append count_list_replicate)
  next
    case (Suc j')
    with Cons.prems have "xs ! j' \<noteq> x" and "j' < length xs" by auto
    with Suc Cons.IH [of j'] Cons.prems show ?thesis
      by (simp add: count_list_append count_list_replicate)
  qed
qed

lemma length_blob_labels [simp]: "length (blob_labels counts) = sum_list counts"
  by (simp add: blob_labels_def length_blocks)

lemma blob_labels_bound: "l \<in> set (blob_labels counts) \<Longrightarrow> l < length counts"
  by (auto simp: blob_labels_def dest: set_zip_leftD)

lemma count_blob_labels:
  "i < length counts \<Longrightarrow> count_list (blob_labels counts) i = counts ! i"
  using count_blocks [of "[0..<length counts]" counts i] by (simp add: blob_labels_def)

subsubsection \<open>Noise rows\<close>

lemma length_add_scaled [simp]: "length (add_scaled s X Z) = min (length X) (length Z)"
  by (simp add: add_scaled_def)

lemma nth_add_scaled:
  "i < length X \<Longrightarrow> i < length Z \<Longrightarrow>
   add_scaled s X Z ! i = map2 (\<lambda>a e. a + s * e) (X ! i) (Z ! i)"
  by (simp add: add_scaled_def)

lemma rows_dim_add_scaled:
  "rows_dim d X \<Longrightarrow> rows_dim d Z \<Longrightarrow> rows_dim d (add_scaled s X Z)"
  by (auto simp: rows_dim_def add_scaled_def list_all_iff dest!: set_zip_leftD set_zip_rightD
      elim!: in_set_zipE)

subsubsection \<open>make_blobs: shape, labels, balance\<close>

lemma blob_points_shape:
  assumes "blob_draws_ok n_samples n_centers d" and "0 < n_centers"
  defines "y \<equiv> blob_labels (n_samples_per_center n_samples n_centers)"
  shows "length (blob_points (centers_draw d) std (normal_draw d) y) = n_samples"
    and "rows_dim 2 (blob_points (centers_draw d) std (normal_draw d) y)"
proof -
  have ly: "length y = n_samples"
    using assms(2) by (simp add: y_def sum_n_samples_per_center)
  then show "length (blob_points (centers_draw d) std (normal_draw d) y) = n_samples"
    using assms(1) by (simp add: blob_points_def blob_draws_ok_def)
  have "\<forall>l\<in>set y. l < length (centers_draw d)"
    using assms(1) blob_labels_bound by (fastforce simp: y_def blob_draws_ok_def)
  then have "rows_dim 2 (map (\<lambda>i. centers_draw d ! i) y)"
    using assms(1) by (auto simp: rows_dim_def blob_draws_ok_def list_all_iff)
  then show "rows_dim 2 (blob_points (centers_draw d) std (normal_draw d) y)"
    using assms(1) by (simp add: blob_points_def blob_draws_ok_def rows_dim_add_scaled)
qed

lemma make_blobs_unfold:
  "0 < n_centers \<Longrightarrow> 0 \<le> std \<Longrightarrow> make_blobs n_samples n_centers std d =
     Inr (permute (shuffle_draw d)
            (blob_points (centers_draw d) std (normal_draw d)
              (blob_labels (n_samples_per_center n_samples n_centers))),
          permute (shuffle_draw d) (blob_labels (n_samples_per_center n_samples n_centers)))"
  by (simp add: make_blobs_def Let_def)

lemma make_blobs_Inr_std: "make_blobs n_samples n_centers std d = Inr r \<Longrightarrow> 0 \<le> std"
  by (simp add: make_blobs_def split: if_splits)

lemma blob_labels_length:
  "0 < n_centers \<Longrightarrow> length (blob_labels (n_samples_per_center n_samples n_centers)) = n_samples"
  by (simp add: sum_n_samples_per_center)

text \<open>For every positive number of centres, a non-negative spread and well-formed draws,
  \<open>make_blobs\<close> returns (raises nothing) a point matrix and a label vector of
  \<open>n_samples\<close> entries each, every point has two coordinates and every label is a
  centre index below \<open>n_centers\<close>.\<close>

theorem make_blobs_shape:
  assumes "0 < n_centers" and "blob_draws_ok n_samples n_centers d" and "0 \<le> std"
  shows "\<exists>X y. make_blobs n_samples n_centers std d = Inr (X, y) \<and>
           length X = n_samples \<and> length y = n_samples \<and> rows_dim 2 X \<and>
           list_all (\<lambda>l. l < n_centers) y"
proof -
  let ?y = "blob_labels (n_samples_per_center n_samples n_centers)"
  let ?X = "blob_points (centers_draw d) std (normal_draw d) ?y"
  have p: "valid_perm n_samples (shuffle_draw d)"
    using assms(2) by (simp add: blob_draws_ok_def)
  have "rows_dim 2 (permute (shuffle_draw d) ?X)"
    using p blob_points_shape [OF assms(2,1)]
    by (simp add: rows_dim_def list_all_permute)
  moreover have "list_all (\<lambda>l. l < n_centers) (permute (shuffle_draw d) ?y)"
  proof -
    have "valid_perm (length ?y) (shuffle_draw d)"
      using p blob_labels_length [OF assms(1)] by simp
    moreover have "list_all (\<lambda>l. l < n_centers) ?y"
      using blob_labels_bound [of _ "n_samples_per_center n_samples n_centers"]
      by (simp add: list_all_iff)
    ultimately show ?thesis by (simp add: list_all_permute)
  qed
  moreover have "length (permute (shuffle_draw d) ?X) = n_samples"
    and "length (permute (shuffle_draw d) ?y) = n_samples"
    using p by (simp_all add: valid_perm_def)
  ultimately show ?thesis
    using make_blobs_unfold [OF assms(1,3)] by blast
qed

text \<open>The centres share the samples as evenly as possible:
  centre \<open>i\<close> receives \<open>n_samples div n_centers\<close> points, plus one for each of the
  first \<open>n_samples mod n_centers\<close> centres, whatever the shuffle.\<close>

theorem make_blobs_balanced:
  assumes "0 < n_centers" and "blob_draws_ok n_samples n_centers d"
    and "make_blobs n_samples n_centers std d = Inr (X, y)" and "i < n_centers"
  shows "count_list y i = n_samples div n_centers + (if i < n_samples mod n_centers then 1 else 0)"
proof -
  let ?counts = "n_samples_per_center n_samples n_centers"
  have y: "y = permute (shuffle_draw d) (blob_labels ?counts)"
    using assms(3) make_blobs_unfold [OF assms(1) make_blobs_Inr_std [OF assms(3)]] by simp
  have "valid_perm (length (blob_labels ?counts)) (shuffle_draw d)"
    using assms(2) blob_labels_length [OF assms(1)] by (simp add: blob_draws_ok_def)
  then have "count_list y i = ?counts ! i"
    using y assms(4) by (simp add: count_permute count_blob_labels)
  then show ?thesis
    using assms(1,4) by (simp add: n_samples_per_center_closed_form)
qed

text \<open>Shuffling keeps every point with its label:
  each returned point is the centre of its own label plus \<open>cluster_std\<close> times one of
  the standard-normal draws.\<close>

theorem make_blobs_rows_near_centres:
  assumes "0 < n_centers" and "blob_draws_ok n_samples n_centers d"
    and "make_blobs n_samples n_centers std d = Inr (X, y)" and "(x, l) \<in> set (zip X y)"
  shows "\<exists>z\<in>set (normal_draw d). x = map2 (\<lambda>a e. a + std * e) (centers_draw d ! l) z"
proof -
  let ?y = "blob_labels (n_samples_per_center n_samples n_centers)"
  let ?X = "blob_points (centers_draw d) std (normal_draw d) ?y"
  have p: "valid_perm n_samples (shuffle_draw d)" and lz: "length (normal_draw d) = n_samples"
    using assms(2) by (simp_all add: blob_draws_ok_def)
  have ly: "length ?y = n_samples"
    using blob_labels_length [OF assms(1)] .
  have lX: "length ?X = n_samples"
    using blob_points_shape(1) [OF assms(2,1)] .
  have "zip X y = permute (shuffle_draw d) (zip ?X ?y)"
    using assms(3) make_blobs_unfold [OF assms(1) make_blobs_Inr_std [OF assms(3)]] zip_permute [OF p lX ly] by simp
  then have "(x, l) \<in> set (zip ?X ?y)"
    using assms(4) set_permute [of "zip ?X ?y" "shuffle_draw d"] p lX ly by simp
  then obtain j where j: "j < n_samples" and x: "x = ?X ! j" and l: "l = ?y ! j"
    using lX ly by (auto simp: set_zip)
  have "x = map2 (\<lambda>a e. a + std * e) (centers_draw d ! l) (normal_draw d ! j)"
    using x l j ly lz by (simp add: blob_points_def nth_add_scaled)
  moreover have "normal_draw d ! j \<in> set (normal_draw d)"
    using j lz by simp
  ultimately show ?thesis by blast
qed

subsection \<open>make_circles\<close>

text \<open>
  \<^verbatim>\<open>if factor >= 1 or factor < 0: raise ValueError(...)
n_samples_out = n_samples // 2; n_samples_in = n_samples - n_samples_out
linspace_out = np.linspace(0, 2 * np.pi, n_samples_out, endpoint=False)
linspace_in = np.linspace(0, 2 * np.pi, n_samples_in, endpoint=False)
outer_circ_x = np.cos(linspace_out); outer_circ_y = np.sin(linspace_out)
inner_circ_x = np.cos(linspace_in) * factor; inner_circ_y = np.sin(linspace_in) * factor
X = np.vstack([np.append(outer_circ_x, inner_circ_x),
               np.append(outer_circ_y, inner_circ_y)]).T
y = np.hstack([np.zeros(n_samples_out), np.ones(n_samples_in)])
if shuffle: X, y = util_shuffle(X, y, random_state=generator)
if noise is not None: X += generator.normal(scale=noise, size=X.shape)\<close>
  The rows of \<open>X\<close> before shuffling are \<open>circle_layout\<close>.
\<close>

definition circle_layout :: "nat \<Rightarrow> real \<Rightarrow> matrix" where
  "circle_layout n_samples factor =
     (let n_samples_out = n_samples div 2;
          n_samples_in = n_samples - n_samples_out;
          linspace_out = linspace 0 (2 * pi) n_samples_out False;
          linspace_in = linspace 0 (2 * pi) n_samples_in False
      in map (\<lambda>t. [cos t, sin t]) linspace_out @
         map (\<lambda>t. [cos t * factor, sin t * factor]) linspace_in)"

definition circle_labels :: "nat \<Rightarrow> labels" where
  "circle_labels n_samples =
     replicate (n_samples div 2) 0 @ replicate (n_samples - n_samples div 2) 1"

text \<open>\<open>generator.normal(scale=noise)\<close> raises \<open>ValueError\<close> on a negative scale.\<close>

fun noise_negative :: "real option \<Rightarrow> bool" where
  "noise_negative None = False"
| "noise_negative (Some s) = (s < 0)"

definition make_circles ::
  "nat \<Rightarrow> real \<Rightarrow> real option \<Rightarrow> circle_draws \<Rightarrow> py_error + (matrix \<times> labels)" where
  "make_circles n_samples factor noise draws =
     (if 1 \<le> factor \<or> factor < 0 then Inl ValueError
      else if noise_negative noise then Inl ValueError
      else
        let X = permute (circle_shuffle draws) (circle_layout n_samples factor);
            y = permute (circle_shuffle draws) (circle_labels n_samples);
            X = (case noise of None \<Rightarrow> X | Some s \<Rightarrow> add_scaled s X (circle_normal draws))
        in Inr (X, y))"

definition circle_draws_ok :: "nat \<Rightarrow> circle_draws \<Rightarrow> bool" where
  "circle_draws_ok n_samples d \<longleftrightarrow>
     valid_perm n_samples (circle_shuffle d) \<and>
     length (circle_normal d) = n_samples \<and> rows_dim 2 (circle_normal d)"

lemma length_circle_layout [simp]: "length (circle_layout n factor) = n"
  by (simp add: circle_layout_def Let_def)

lemma length_circle_labels [simp]: "length (circle_labels n) = n"
  by (simp add: circle_labels_def)

lemma rows_dim_circle_layout: "rows_dim 2 (circle_layout n factor)"
  by (auto simp: circle_layout_def Let_def rows_dim_def list_all_iff)

text \<open>Every point of the layout is a point \<open>[a, b]\<close> of the circle of its label:
  radius 1 for label 0 and radius \<open>factor\<close> for label 1.\<close>

lemma circle_layout_rings:
  "(p, l) \<in> set (zip (circle_layout n factor) (circle_labels n)) \<Longrightarrow>
   \<exists>a b. p = [a, b] \<and> a\<^sup>2 + b\<^sup>2 = (if l = 0 then 1 else factor\<^sup>2) \<and> l < 2"
proof -
  let ?o = "map (\<lambda>t. [cos t, sin t]) (linspace 0 (2 * pi) (n div 2) False)"
  let ?i = "map (\<lambda>t. [cos t * factor, sin t * factor]) (linspace 0 (2 * pi) (n - n div 2) False)"
  assume "(p, l) \<in> set (zip (circle_layout n factor) (circle_labels n))"
  then have "(p, l) \<in> set (zip ?o (replicate (n div 2) 0)) \<or>
             (p, l) \<in> set (zip ?i (replicate (n - n div 2) 1))"
    by (simp add: circle_layout_def circle_labels_def Let_def)
  then show ?thesis
  proof
    assume a: "(p, l) \<in> set (zip ?o (replicate (n div 2) 0))"
    then have "p \<in> set ?o" and "l = 0"
      by (blast dest: set_zip_leftD, meson a in_set_replicate set_zip_rightD)
    then show ?thesis by auto
  next
    assume a: "(p, l) \<in> set (zip ?i (replicate (n - n div 2) 1))"
    then have "p \<in> set ?i" and l: "l = 1"
      by (blast dest: set_zip_leftD, meson a in_set_replicate set_zip_rightD)
    then obtain t where "p = [cos t * factor, sin t * factor]"
      by auto
    moreover have "(cos t * factor)\<^sup>2 + (sin t * factor)\<^sup>2 = factor\<^sup>2"
      by (simp add: power_mult_distrib flip: distrib_right)
    ultimately show ?thesis using l by simp
  qed
qed

lemma make_circles_unfold:
  "0 \<le> factor \<Longrightarrow> factor < 1 \<Longrightarrow> \<not> noise_negative noise \<Longrightarrow> make_circles n factor noise d =
     Inr (case noise of
            None \<Rightarrow> permute (circle_shuffle d) (circle_layout n factor)
          | Some s \<Rightarrow> add_scaled s (permute (circle_shuffle d) (circle_layout n factor)) (circle_normal d),
          permute (circle_shuffle d) (circle_labels n))"
  by (simp add: make_circles_def Let_def)

lemma make_circles_Inr_noise: "make_circles n factor noise d = Inr r \<Longrightarrow> \<not> noise_negative noise"
  by (simp add: make_circles_def split: if_splits)

lemma count_circle_labels:
  "count_list (circle_labels n) 0 = n div 2" "count_list (circle_labels n) 1 = n - n div 2"
  by (simp_all add: circle_labels_def count_list_append count_list_replicate)

text \<open>For a factor in \<open>[0, 1)\<close>, a noise level that is absent or non-negative and well-formed draws,
  \<open>make_circles\<close> returns \<open>n_samples\<close> points in the plane and as many labels,
  \<open>n_samples div 2\<close> of them 0 (outer ring) and the rest 1 (inner ring), with or
  without noise.\<close>

theorem make_circles_shape:
  assumes "0 \<le> factor" and "factor < 1" and "circle_draws_ok n d" and "\<not> noise_negative noise"
  shows "\<exists>X y. make_circles n factor noise d = Inr (X, y) \<and>
           length X = n \<and> length y = n \<and> rows_dim 2 X \<and>
           count_list y 0 = n div 2 \<and> count_list y 1 = n - n div 2 \<and>
           list_all (\<lambda>l. l < 2) y"
proof -
  have p: "valid_perm n (circle_shuffle d)" and lz: "length (circle_normal d) = n"
    and rz: "rows_dim 2 (circle_normal d)"
    using assms(3) by (simp_all add: circle_draws_ok_def)
  let ?X = "permute (circle_shuffle d) (circle_layout n factor)"
  let ?y = "permute (circle_shuffle d) (circle_labels n)"
  have rX: "rows_dim 2 ?X"
    using p rows_dim_circle_layout [of n factor] by (simp add: rows_dim_def list_all_permute)
  have lX: "length ?X = n" and ly: "length ?y = n"
    using p by (simp_all add: valid_perm_def)
  have cy: "count_list ?y 0 = n div 2" "count_list ?y 1 = n - n div 2"
    using p count_circle_labels [of n] by (simp_all add: count_permute)
  have "list_all (\<lambda>l. l < 2) (circle_labels n)"
    by (auto simp: circle_labels_def list_all_iff dest: in_set_replicate [THEN iffD1])
  then have ay: "list_all (\<lambda>l. l < 2) ?y"
    using p by (simp add: list_all_permute)
  show ?thesis
  proof (cases noise)
    case None
    then show ?thesis
      using make_circles_unfold [OF assms(1,2,4)] rX lX ly cy ay by simp
  next
    case (Some s)
    then show ?thesis
      using make_circles_unfold [OF assms(1,2,4)] rX lX ly cy ay lz rz
      by (simp add: rows_dim_add_scaled)
  qed
qed

lemma circle_pairs:
  "valid_perm n (circle_shuffle d) \<Longrightarrow>
   set (zip (permute (circle_shuffle d) (circle_layout n factor))
            (permute (circle_shuffle d) (circle_labels n))) =
   set (zip (circle_layout n factor) (circle_labels n))"
  by (simp add: set_zip_permute)

text \<open>Without noise, shuffling keeps every point on the ring of
  its own label: label 0 points have squared norm 1, label 1 points squared norm
  \<open>factor\<^sup>2\<close>.\<close>

theorem make_circles_rings:
  assumes "0 \<le> factor" and "factor < 1" and "circle_draws_ok n d"
    and "make_circles n factor None d = Inr (X, y)" and "(x, l) \<in> set (zip X y)"
  shows "row_sq_norm x = (if l = 0 then 1 else factor\<^sup>2)"
proof -
  have p: "valid_perm n (circle_shuffle d)"
    using assms(3) by (simp add: circle_draws_ok_def)
  have "(x, l) \<in> set (zip (permute (circle_shuffle d) (circle_layout n factor))
                          (permute (circle_shuffle d) (circle_labels n)))"
    using assms(4,5) make_circles_unfold [OF assms(1,2), of None n d] by simp
  then have "(x, l) \<in> set (zip (circle_layout n factor) (circle_labels n))"
    by (simp only: circle_pairs [OF p])
  then show ?thesis
    using circle_layout_rings by fastforce
qed

text \<open>With noise level \<open>s\<close>, every point is a point \<open>[a, b]\<close> of its label's
  ring moved by \<open>s\<close> times one of the standard-normal draws \<open>[z1, z2]\<close>.\<close>

theorem make_circles_noisy_rings:
  assumes "0 \<le> factor" and "factor < 1" and "circle_draws_ok n d"
    and "make_circles n factor (Some s) d = Inr (X, y)" and "(x, l) \<in> set (zip X y)"
  shows "\<exists>a b z1 z2. a\<^sup>2 + b\<^sup>2 = (if l = 0 then 1 else factor\<^sup>2) \<and> l < 2 \<and>
           [z1, z2] \<in> set (circle_normal d) \<and> x = [a + s * z1, b + s * z2]"
proof -
  let ?X = "permute (circle_shuffle d) (circle_layout n factor)"
  let ?y = "permute (circle_shuffle d) (circle_labels n)"
  have p: "valid_perm n (circle_shuffle d)" and lz: "length (circle_normal d) = n"
    and rz: "rows_dim 2 (circle_normal d)"
    using assms(3) by (simp_all add: circle_draws_ok_def)
  have X: "X = add_scaled s ?X (circle_normal d)" and y: "y = ?y"
    using assms(4) make_circles_unfold [OF assms(1,2) make_circles_Inr_noise [OF assms(4)]] by simp_all
  have lX: "length ?X = n" and ly: "length ?y = n"
    using p by (simp_all add: valid_perm_def)
  from assms(5) obtain j where j: "j < n" and x: "x = X ! j" and l: "l = y ! j"
    using X y lX ly lz by (auto simp: set_zip)
  have "(?X ! j, ?y ! j) \<in> set (zip ?X ?y)"
    using j lX ly by (auto simp: set_zip)
  then have "(?X ! j, l) \<in> set (zip (circle_layout n factor) (circle_labels n))"
    using circle_pairs [OF p] l y by simp
  then obtain a b where ab: "?X ! j = [a, b]"
    and r: "a\<^sup>2 + b\<^sup>2 = (if l = 0 then 1 else factor\<^sup>2)" and l2: "l < 2"
    using circle_layout_rings by blast
  have zin: "circle_normal d ! j \<in> set (circle_normal d)"
    using j lz by simp
  then obtain z1 z2 where z: "circle_normal d ! j = [z1, z2]"
    using rz by (auto simp: rows_dim_def list_all_iff length_Suc_conv numeral_2_eq_2)
  have "x = [a + s * z1, b + s * z2]"
    using x X j lX lz ab z by (simp add: nth_add_scaled)
  then show ?thesis
    using r l2 zin z by fastforce
qed

subsubsection \<open>Three points of the rings\<close>

text \<open>With an even number \<open>2 k\<close> of outer points, the outer ring contains \<open>(1, 0)\<close> at
  angle 0 and \<open>(-1, 0)\<close> at angle \<open>\<pi>\<close>, and the inner ring contains
  \<open>(factor, 0)\<close> at angle 0.\<close>

lemma circle_layout_points:
  assumes "n div 2 = 2 * k" and "0 < k" and "n div 2 < n"
  shows "circle_layout n factor ! 0 = [1, 0]" and "circle_layout n factor ! k = [-1, 0]"
    and "circle_layout n factor ! (n div 2) = [factor, 0]"
proof -
  let ?o = "map (\<lambda>t. [cos t, sin t]) (linspace 0 (2 * pi) (n div 2) False)"
  let ?i = "map (\<lambda>t. [cos t * factor, sin t * factor]) (linspace 0 (2 * pi) (n - n div 2) False)"
  have lay: "circle_layout n factor = ?o @ ?i"
    by (simp add: circle_layout_def Let_def)
  have lo: "length ?o = n div 2" by simp
  have "linspace 0 (2 * pi) (n div 2) False ! k = pi"
    using assms(1,2)
    by (simp add: nth_linspace linspace_pt_def linspace_step_def linspace_div_def)
  then have "?o ! k = [-1, 0]"
    using assms(1,2) by simp
  then show "circle_layout n factor ! k = [-1, 0]"
    using assms(1,2) lay lo by (simp add: nth_append)
  have "?o ! 0 = [1, 0]"
    using assms(1,2) by (simp add: nth_linspace)
  then show "circle_layout n factor ! 0 = [1, 0]"
    using assms(1,2) lay lo by (simp add: nth_append)
  have "?i ! 0 = [factor, 0]"
    using assms(3) by (simp add: nth_linspace)
  then show "circle_layout n factor ! (n div 2) = [factor, 0]"
    using lay lo by (simp add: nth_append)
qed

lemma circle_labels_nth:
  "i < n \<Longrightarrow> circle_labels n ! i = (if i < n div 2 then 0 else 1)"
  by (simp add: circle_labels_def nth_append)

lemma add_scaled_zero:
  "rows_dim 2 X \<Longrightarrow> add_scaled s X (replicate (length X) [0, 0]) = X"
proof (induction X)
  case Nil
  then show ?case by (simp add: add_scaled_def)
next
  case (Cons r X)
  then obtain a b where "r = [a, b]"
    by (auto simp: rows_dim_def length_Suc_conv numeral_2_eq_2)
  with Cons show ?case by (simp add: add_scaled_def rows_dim_def)
qed

end
