(* ===== verification/Page.thy ===== *)
theory Page
  imports SVC_Plot Datasets
begin

text \<open>
  The page itself, src/src/pages/machine_learning.py: \<open>app\<close> (lines 10--36),
  \<open>support_vector_machines\<close> (lines 39--104) and \<open>plot_3D\<close> (lines 106--115).
  A Streamlit run is modelled as a \<open>session\<close>: the pyplot store of \<open>Pyplot\<close> and
  the list of elements the page has emitted so far (headings, text, the checkbox, the
  echoed code, the figures handed to \<open>st.pyplot\<close>, and an expander holding the
  elements emitted inside its \<open>with\<close> block). The widget state of the checkbox, the
  draws of the random generators and the fit routine of \<open>SVC\<close> are the inputs of a
  run (\<open>page_input\<close>). A narrative text block is identified by its first line,
  verbatim; the rest of its markdown is not modelled, and a rule \<open>---\<close> followed by an
  empty heading \<open>##\<close> is the element \<open>Markdown ''---''\<close>. An exception raised by a library call ends the run:
  \<open>support_vector_machines\<close> and \<open>app\<close> return \<open>py_error + session\<close>.
\<close>

datatype element =
    Heading nat string
  | Write string
  | Markdown string
  | Expander string "element list"
  | Checkbox string
  | Code string
  | Figure figure

record session =
  plt :: pyplot
  page :: "element list"

record page_input =
  show_lines :: bool
  blob_rng :: blob_draws
  circle_rng :: circle_draws
  svc_fit :: "real \<Rightarrow> matrix \<Rightarrow> labels \<Rightarrow> linear_svc"

definition session_init :: session where
  "session_init = \<lparr>plt = pyplot_init, page = []\<rparr>"

subsection \<open>Streamlit calls\<close>

definition emit :: "element \<Rightarrow> session \<Rightarrow> session" where
  "emit e s = s\<lparr>page := page s @ [e]\<rparr>"

text \<open>\<open>create_font(size, text)\<close> from the page's \<open>utils\<close> (not under src/): a heading.\<close>

definition create_font :: "nat \<Rightarrow> string \<Rightarrow> session \<Rightarrow> session" where
  "create_font font_size txt s = emit (Heading font_size txt) s"

definition st_write :: "string \<Rightarrow> session \<Rightarrow> session" where
  "st_write txt s = emit (Write txt) s"

definition st_markdown :: "string \<Rightarrow> session \<Rightarrow> session" where
  "st_markdown txt s = emit (Markdown txt) s"

text \<open>\<open>st.checkbox(label)\<close> shows the box and returns its widget state.\<close>

definition st_checkbox :: "string \<Rightarrow> bool \<Rightarrow> session \<Rightarrow> session \<times> bool" where
  "st_checkbox label value s = (emit (Checkbox label) s, value)"

text \<open>\<open>st.pyplot(fig)\<close> shows figure \<open>fig\<close> as it is at the time of the call.\<close>

definition st_pyplot :: "nat \<Rightarrow> session \<Rightarrow> session" where
  "st_pyplot f s = emit (Figure (figures (plt s) ! f)) s"

text \<open>\<open>with st.echo(code_location):\<close> shows the source of its block, above the block's
  output unless \<open>code_location\<close> is \<open>"below"\<close>; the argument itself is not shown.
  The block of lines 55--59 emits nothing, so only the code element is added.\<close>

definition st_echo :: "string \<Rightarrow> string \<Rightarrow> session \<Rightarrow> session" where
  "st_echo code_location code s = emit (Code code) s"

text \<open>\<open>with st.expander(label):\<close> collects what its block emits inside the expander.\<close>

definition st_expander ::
  "string \<Rightarrow> (session \<Rightarrow> py_error + session) \<Rightarrow> session \<Rightarrow> py_error + session" where
  "st_expander label body s =
     (case body (s\<lparr>page := []\<rparr>) of
        Inl e \<Rightarrow> Inl e
      | Inr s' \<Rightarrow> Inr (s'\<lparr>page := page s @ [Expander label (page s')]\<rparr>))"

subsection \<open>plot_3D (lines 106--115)\<close>

text \<open>\<open>r = np.exp(-(X ** 2).sum(1))\<close>.\<close>

definition radial_feature :: "matrix \<Rightarrow> real list" where
  "radial_feature X = map (\<lambda>row. exp (- row_sq_norm row)) X"

text \<open>The points the 3D scatter shows: \<open>(X[:, 0], X[:, 1], r)\<close> read row by row.\<close>

definition lifted_points :: "matrix \<Rightarrow> matrix" where
  "lifted_points X =
     map (\<lambda>(a, b, r). [a, b, r]) (zip (col X 0) (zip (col X 1) (radial_feature X)))"

text \<open>The plane \<open>r = exp (- t)\<close> of the lifted space as a linear classifier:
  label 1 above it (points of squared norm below \<open>t\<close>), label 0 below.\<close>

definition radial_plane :: "real \<Rightarrow> linear_svc" where
  "radial_plane t = \<lparr>coef = [0, 0, 1], intercept = - exp (- t), support_vectors = [], classes = [0, 1]\<rparr>"

definition plot_3D :: "matrix \<Rightarrow> labels \<Rightarrow> real \<Rightarrow> real \<Rightarrow> session \<Rightarrow> session" where
  "plot_3D X y elev azim s =
     (let r = radial_feature X;
          (st, fig) = plt_figure (plt s);
          (st, ax) = add_subplot st fig True;
          st = ax_add st ax (Scatter3D (col X 0) (col X 1) r y 50 ''autumn'');
          st = ax_view_init st ax elev azim;
          st = ax_set_label st ax ''x'';
          st = ax_set_label st ax ''y'';
          st = ax_set_label st ax ''r''
      in st_pyplot fig (s\<lparr>plt := st\<rparr>))"

subsection \<open>support_vector_machines (lines 39--104)\<close>

text \<open>Line 42: \<open>X, y = make_blobs(n_samples=50, centers=2, random_state=0,
  cluster_std=0.60)\<close>; line 78: \<open>X, y = make_circles(100, factor=.1, noise=.1)\<close>.\<close>

definition blobs_data :: "page_input \<Rightarrow> py_error + (matrix \<times> labels)" where
  "blobs_data inp = make_blobs 50 2 (3 / 5) (blob_rng inp)"

definition circles_data :: "page_input \<Rightarrow> py_error + (matrix \<times> labels)" where
  "circles_data inp = make_circles 100 (1 / 10) (Some (1 / 10)) (circle_rng inp)"

text \<open>\<open>scatter(X[:, 0], X[:, 1], c=y, s=50, cmap=cmap)\<close> (lines 44, 67, 82).\<close>

definition labelled_scatter :: "matrix \<Rightarrow> labels \<Rightarrow> string \<Rightarrow> artist" where
  "labelled_scatter X y cmap = Scatter (col X 0) (col X 1) (Some y) 50 (Some cmap) False"

text \<open>The hand-picked dividing lines \<open>(m, b)\<close> of line 48 over \<open>xfit =
  np.linspace(-1, 3.5)\<close> (line 47), and one turn of the loop of lines 48--51:
  \<open>ax.plot(xfit, m * xfit + b, '-k')\<close> then \<open>ax.set_xlim(-1, 3.5)\<close>, which the
  source indents into the loop body.\<close>

definition xfit :: "real list" where
  "xfit = linspace (-1) (7 / 2) 50 True"

definition candidate_lines :: "(real \<times> real) list" where
  "candidate_lines = [(1, 13 / 20), (1 / 2, 8 / 5), (- 1 / 5, 29 / 10)]"

definition candidate_line :: "real list \<Rightarrow> real \<times> real \<Rightarrow> artist" where
  "candidate_line xs mb = Line2D xs (map (\<lambda>x. fst mb * x + snd mb) xs) ''-k''"

definition draw_candidate :: "axref \<Rightarrow> pyplot \<Rightarrow> real \<times> real \<Rightarrow> pyplot" where
  "draw_candidate ax st mb = ax_set_xlim (ax_add st ax (candidate_line xfit mb)) ax (-1, 7 / 2)"

definition draw_candidates :: "axref \<Rightarrow> pyplot \<Rightarrow> pyplot" where
  "draw_candidates ax st = foldl (draw_candidate ax) st candidate_lines"

text \<open>Lines 43--52: the blobs scatter, the checkbox, the candidate lines when it is
  ticked, and \<open>st.pyplot(fig)\<close>.\<close>

definition svm_blobs_section :: "page_input \<Rightarrow> matrix \<Rightarrow> labels \<Rightarrow> session \<Rightarrow> session" where
  "svm_blobs_section inp X y s =
     (let (st, fig, ax) = subplots (plt s);
          st = ax_add st ax (labelled_scatter X y ''winter'');
          (s, checkbox) = st_checkbox ''Show possible dividing lines'' (show_lines inp) (s\<lparr>plt := st\<rparr>);
          s = (if checkbox then s\<lparr>plt := draw_candidates ax (plt s)\<rparr> else s)
      in st_pyplot fig s)"

text \<open>Lines 57--59 and 81: \<open>SVC(kernel='linear', C=1E10).fit(X, y)\<close> and
  \<open>SVC(kernel='linear').fit(X, y)\<close> with the default \<open>C = 1.0\<close>.\<close>

definition svm_model :: "page_input \<Rightarrow> matrix \<Rightarrow> labels \<Rightarrow> linear_svc" where
  "svm_model inp X y = svc_fit inp 10000000000 X y"

definition circles_clf :: "page_input \<Rightarrow> matrix \<Rightarrow> labels \<Rightarrow> linear_svc" where
  "circles_clf inp X y = svc_fit inp 1 X y"

text \<open>The source that \<open>st.echo\<close> shows: the five lines of the \<open>with\<close> block
  (lines 55--59), comments included, each ending in a newline.\<close>

definition svm_fit_code :: string where
  "svm_fit_code = concat (map (\<lambda>l. l @ [CHR 0x0A])
     [''# from sklearn.datasets import make_blobs'',
      ''# X, y = make_blobs(n_samples=50, centers=2, random_state=0, cluster_std=0.60)'',
      ''from sklearn.svm import SVC'',
      ''model = SVC(kernel='linear', C=1E10)'',
      ''model.fit(X, y)''])"

text \<open>Lines 54--75: the echoed fit, a rule, and a second figure with the scatter and the
  decision boundary of that model, support vectors circled.\<close>

definition svm_fit_section :: "page_input \<Rightarrow> matrix \<Rightarrow> labels \<Rightarrow> session \<Rightarrow> session" where
  "svm_fit_section inp X y s =
     (let s = st_echo ''Fit an SVM classifier in 2 lines of code'' svm_fit_code s;
          model = svm_model inp X y;
          s = st_markdown ''---'' s;
          (st, fig, ax) = subplots (plt s);
          st = ax_add st ax (labelled_scatter X y ''autumn'');
          st = plot_svc_decision_function model True st;
          s = st_pyplot fig (s\<lparr>plt := st\<rparr>)
      in st_markdown ''---'' s)"

text \<open>Lines 79--104 on the circles data: a new figure, the linear fit, the scatter drawn
  through pyplot's current axes (\<open>plt.scatter\<close>), the boundary without support
  rings, text, and the 3-D projection.\<close>

definition svm_circles_section :: "page_input \<Rightarrow> matrix \<Rightarrow> labels \<Rightarrow> session \<Rightarrow> session" where
  "svm_circles_section inp X y s =
     (let (st, fig, ax) = subplots (plt s);
          clf = circles_clf inp X y;
          (st, cur) = gca st;
          st = ax_add st cur (labelled_scatter X y ''autumn'');
          st = plot_svc_decision_function clf False st;
          s = st_pyplot fig (s\<lparr>plt := st\<rparr>);
          s = st_write ''- Data is not linearly separable, it is impossible to find a fitting decision boundary'' s;
          s = st_markdown ''---'' s;
          s = plot_3D X y 30 30 s
      in st_write ''- The function to transform the coordinate space into a higher dimension needs to be learned'' s)"

definition support_vector_machines :: "page_input \<Rightarrow> session \<Rightarrow> py_error + session" where
  "support_vector_machines inp s =
     (case blobs_data inp of
        Inl e \<Rightarrow> Inl e
      | Inr (X, y) \<Rightarrow>
          let s = svm_blobs_section inp X y s;
              s = svm_fit_section inp X y s;
              s = create_font 20 ''What if data is not linearly separable?'' s
          in (case circles_data inp of
                Inl e \<Rightarrow> Inl e
              | Inr (X, y) \<Rightarrow> Inr (svm_circles_section inp X y s)))"

subsection \<open>app (lines 10--36)\<close>

text \<open>Lines 11--27: the title and the introductory text.\<close>

definition app_intro :: "session \<Rightarrow> session" where
  "app_intro s =
     st_write ''- *What's the difference?*''
       (create_font 30 ''(Traditional) Machine Learning and Deep Learning'' s)"

definition app :: "page_input \<Rightarrow> session \<Rightarrow> py_error + session" where
  "app inp s =
     (let s = app_intro s
      in st_expander ''Support Vector Machines''
           (\<lambda>s. support_vector_machines inp (st_write ''- Powerful supervised algorithms for regression or classification'' s)) s)"

subsection \<open>The page as displayed\<close>

text \<open>A description of what a run shows, free of the pyplot store: the axes of each
  displayed figure and the sequence of elements. \<open>app_displays\<close> below shows that the
  page, which reaches its figures through stored references and through pyplot's
  current axes, displays exactly this.\<close>

definition blobs_axes :: "page_input \<Rightarrow> matrix \<Rightarrow> labels \<Rightarrow> axes" where
  "blobs_axes inp X y =
     (empty_axes False)\<lparr>artists := labelled_scatter X y ''winter'' #
          (if show_lines inp then map (candidate_line xfit) candidate_lines else []),
        xlim := (if show_lines inp then Some (-1, 7 / 2) else None)\<rparr>"

definition scatter_axes :: "matrix \<Rightarrow> labels \<Rightarrow> string \<Rightarrow> axes" where
  "scatter_axes X y cmap = (empty_axes False)\<lparr>artists := [labelled_scatter X y cmap]\<rparr>"

definition projection_axes :: "matrix \<Rightarrow> labels \<Rightarrow> real \<Rightarrow> real \<Rightarrow> axes" where
  "projection_axes X y elev azim =
     (empty_axes True)\<lparr>artists := [Scatter3D (col X 0) (col X 1) (radial_feature X) y 50 ''autumn''],
        view := Some (elev, azim), axis_labels := [''x'', ''y'', ''r'']\<rparr>"

definition displayed_svm :: "page_input \<Rightarrow> matrix \<Rightarrow> labels \<Rightarrow> matrix \<Rightarrow> labels \<Rightarrow> element list" where
  "displayed_svm inp X y Xc yc =
     [Checkbox ''Show possible dividing lines'',
      Figure \<lparr>fig_axes = [blobs_axes inp X y]\<rparr>,
      Code svm_fit_code, Markdown ''---'',
      Figure \<lparr>fig_axes = [svc_overlay (svm_model inp X y) True (scatter_axes X y ''autumn'')]\<rparr>,
      Markdown ''---'', Heading 20 ''What if data is not linearly separable?'',
      Figure \<lparr>fig_axes = [svc_overlay (circles_clf inp Xc yc) False (scatter_axes Xc yc ''autumn'')]\<rparr>,
      Write ''- Data is not linearly separable, it is impossible to find a fitting decision boundary'', Markdown ''---'',
      Figure \<lparr>fig_axes = [projection_axes Xc yc 30 30]\<rparr>,
      Write ''- The function to transform the coordinate space into a higher dimension needs to be learned'']"

definition displayed_page :: "page_input \<Rightarrow> matrix \<Rightarrow> labels \<Rightarrow> matrix \<Rightarrow> labels \<Rightarrow> element list" where
  "displayed_page inp X y Xc yc =
     [Heading 30 ''(Traditional) Machine Learning and Deep Learning'',
      Write ''- *What's the difference?*'',
      Expander ''Support Vector Machines''
        (Write ''- Powerful supervised algorithms for regression or classification'' # displayed_svm inp X y Xc yc)]"

text \<open>The figures a page shows, in display order, looking inside expanders.\<close>

fun page_figures :: "element list \<Rightarrow> figure list" where
  "page_figures [] = []"
| "page_figures (Figure f # es) = f # page_figures es"
| "page_figures (Expander l body # es) = page_figures body @ page_figures es"
| "page_figures (e # es) = page_figures es"

text \<open>The strings a page shows: headings, text, checkbox labels, echoed code, expander
  labels and the axis labels of its figures.\<close>

fun element_texts :: "element \<Rightarrow> string list" where
  "element_texts (Heading n t) = [t]"
| "element_texts (Write t) = [t]"
| "element_texts (Markdown t) = [t]"
| "element_texts (Expander l body) = l # concat (map element_texts body)"
| "element_texts (Checkbox l) = [l]"
| "element_texts (Code c) = [c]"
| "element_texts (Figure f) = concat (map axis_labels (fig_axes f))"

subsection \<open>Running the sections\<close>

lemma foldl_draw_candidate:
  "figures st = fs @ [\<lparr>fig_axes = [a]\<rparr>] \<Longrightarrow>
   figures (foldl (draw_candidate (length fs, 0)) st ls) =
     fs @ [\<lparr>fig_axes = [a\<lparr>artists := artists a @ map (candidate_line xfit) ls,
                            xlim := (if ls = [] then xlim a else Some (-1, 7 / 2))\<rparr>]\<rparr>] \<and>
   current (foldl (draw_candidate (length fs, 0)) st ls) = current st"
proof (induction ls arbitrary: st a)
  case Nil
  then show ?case by simp
next
  case (Cons mb ls)
  let ?a = "a\<lparr>artists := artists a @ [candidate_line xfit mb], xlim := Some (-1, 7 / 2)\<rparr>"
  have "figures (draw_candidate (length fs, 0) st mb) = fs @ [\<lparr>fig_axes = [?a]\<rparr>]"
    using Cons.prems by (simp add: draw_candidate_def ax_add_def ax_set_xlim_def update_last_axes)
  moreover have "current (draw_candidate (length fs, 0) st mb) = current st"
    by (simp add: draw_candidate_def ax_add_def ax_set_xlim_def)
  ultimately show ?case
    using Cons.IH [of "draw_candidate (length fs, 0) st mb" ?a] by simp
qed

text \<open>Setting the x range inside the loop, after each line, is setting it once after all
  of them.\<close>

lemma draw_candidates_hoist:
  "foldl (draw_candidate ax) (ax_set_xlim st ax (-1, 7 / 2)) ls =
     ax_set_xlim (foldl (\<lambda>st mb. ax_add st ax (candidate_line xfit mb)) st ls) ax (-1, 7 / 2)"
proof (induction ls arbitrary: st)
  case Nil
  then show ?case by simp
next
  case (Cons mb ls)
  have "draw_candidate ax (ax_set_xlim st ax (-1, 7 / 2)) mb =
        ax_set_xlim (ax_add st ax (candidate_line xfit mb)) ax (-1, 7 / 2)"
    by (simp add: draw_candidate_def ax_set_xlim_def ax_add_def update_axes_twice comp_def)
  then show ?case
    using Cons.IH [of "ax_add st ax (candidate_line xfit mb)"] by simp
qed

lemma draw_candidates_hoist_Cons:
  "foldl (draw_candidate ax) st (mb # ls) =
     ax_set_xlim (foldl (\<lambda>st mb. ax_add st ax (candidate_line xfit mb)) st (mb # ls)) ax (-1, 7 / 2)"
  using draw_candidates_hoist [of ax "ax_add st ax (candidate_line xfit mb)" ls]
  by (simp add: draw_candidate_def)

lemma figures_emit [simp]: "plt (emit e s) = plt s" and page_emit [simp]: "page (emit e s) = page s @ [e]"
  by (simp_all add: emit_def)

lemma svm_blobs_section_run:
  "page (svm_blobs_section inp X y s) =
     page s @ [Checkbox ''Show possible dividing lines'', Figure \<lparr>fig_axes = [blobs_axes inp X y]\<rparr>] \<and>
   figures (plt (svm_blobs_section inp X y s)) = figures (plt s) @ [\<lparr>fig_axes = [blobs_axes inp X y]\<rparr>] \<and>
   current (plt (svm_blobs_section inp X y s)) = length (figures (plt s))"
proof -
  obtain st f r where sp: "subplots (plt s) = (st, f, r)"
    by (cases "subplots (plt s)") auto
  note fresh = subplots_last [OF sp]
  let ?a = "(empty_axes False)\<lparr>artists := [labelled_scatter X y ''winter'']\<rparr>"
  let ?st = "ax_add st r (labelled_scatter X y ''winter'')"
  have f1: "figures ?st = figures (plt s) @ [\<lparr>fig_axes = [?a]\<rparr>]"
    using fresh by (simp add: ax_add_def update_last_axes empty_axes_def)
  have c1: "current ?st = length (figures (plt s))"
    using fresh by (simp add: ax_add_def)
  have lines: "figures (draw_candidates r ?st) = figures (plt s) @ [\<lparr>fig_axes = [blobs_axes inp X y]\<rparr>] \<and>
      current (draw_candidates r ?st) = length (figures (plt s))" if "show_lines inp"
    using foldl_draw_candidate [OF f1, of candidate_lines] fresh c1 that
    by (simp add: draw_candidates_def blobs_axes_def candidate_lines_def empty_axes_def)
  show ?thesis
  proof (cases "show_lines inp")
    case True
    with lines sp fresh show ?thesis
      by (simp add: svm_blobs_section_def st_checkbox_def st_pyplot_def Let_def)
  next
    case False
    with f1 c1 sp fresh show ?thesis
      by (simp add: svm_blobs_section_def st_checkbox_def st_pyplot_def Let_def blobs_axes_def
          empty_axes_def)
  qed
qed

lemma svm_fit_section_run:
  "page (svm_fit_section inp X y s) =
     page s @ [Code svm_fit_code, Markdown ''---'',
       Figure \<lparr>fig_axes = [svc_overlay (svm_model inp X y) True (scatter_axes X y ''autumn'')]\<rparr>,
       Markdown ''---''] \<and>
   figures (plt (svm_fit_section inp X y s)) =
     figures (plt s) @ [\<lparr>fig_axes = [svc_overlay (svm_model inp X y) True (scatter_axes X y ''autumn'')]\<rparr>] \<and>
   current (plt (svm_fit_section inp X y s)) = length (figures (plt s))"
proof -
  obtain st f r where sp: "subplots (plt s) = (st, f, r)"
    by (cases "subplots (plt s)") auto
  note fresh = subplots_last [OF sp]
  let ?st = "ax_add st r (labelled_scatter X y ''autumn'')"
  have f1: "figures ?st = figures (plt s) @ [\<lparr>fig_axes = [scatter_axes X y ''autumn'']\<rparr>]"
    and c1: "current ?st = length (figures (plt s))"
    using fresh by (simp_all add: ax_add_def update_last_axes empty_axes_def scatter_axes_def)
  note ov = plot_svc_last [OF f1 c1, of "svm_model inp X y" True]
  show ?thesis
    using sp fresh ov
    by (simp add: svm_fit_section_def st_echo_def st_markdown_def st_pyplot_def Let_def)
qed

lemma plot_3D_run:
  "page (plot_3D X y elev azim s) = page s @ [Figure \<lparr>fig_axes = [projection_axes X y elev azim]\<rparr>] \<and>
   figures (plt (plot_3D X y elev azim s)) =
     figures (plt s) @ [\<lparr>fig_axes = [projection_axes X y elev azim]\<rparr>]"
  by (simp add: plot_3D_def plt_figure_def add_subplot_def ax_add_def ax_view_init_def
      ax_set_label_def update_axes_def st_pyplot_def projection_axes_def empty_axes_def Let_def)

lemma svm_circles_section_run:
  "page (svm_circles_section inp X y s) =
     page s @ [Figure \<lparr>fig_axes = [svc_overlay (circles_clf inp X y) False (scatter_axes X y ''autumn'')]\<rparr>,
       Write ''- Data is not linearly separable, it is impossible to find a fitting decision boundary'', Markdown ''---'',
       Figure \<lparr>fig_axes = [projection_axes X y 30 30]\<rparr>,
       Write ''- The function to transform the coordinate space into a higher dimension needs to be learned''] \<and>
   figures (plt (svm_circles_section inp X y s)) =
     figures (plt s) @ [\<lparr>fig_axes = [svc_overlay (circles_clf inp X y) False (scatter_axes X y ''autumn'')]\<rparr>,
       \<lparr>fig_axes = [projection_axes X y 30 30]\<rparr>]"
proof -
  obtain st f r where sp: "subplots (plt s) = (st, f, r)"
    by (cases "subplots (plt s)") auto
  note fresh = subplots_last [OF sp]
  have g: "gca st = (st, (length (figures (plt s)), 0))"
    using fresh by (simp add: gca_last)
  let ?st = "ax_add st (length (figures (plt s)), 0) (labelled_scatter X y ''autumn'')"
  have f1: "figures ?st = figures (plt s) @ [\<lparr>fig_axes = [scatter_axes X y ''autumn'']\<rparr>]"
    and c1: "current ?st = length (figures (plt s))"
    using fresh by (simp_all add: ax_add_def update_last_axes empty_axes_def scatter_axes_def)
  note ov = plot_svc_last [OF f1 c1, of "circles_clf inp X y" False]
  show ?thesis
    using sp fresh g ov
    by (simp add: svm_circles_section_def st_write_def st_markdown_def st_pyplot_def plot_3D_run Let_def)
qed

lemma blobs_data_Inr: "\<exists>X y. blobs_data inp = Inr (X, y)"
  by (simp add: blobs_data_def make_blobs_unfold)

lemma circles_data_Inr: "\<exists>X y. circles_data inp = Inr (X, y)"
  by (simp add: circles_data_def make_circles_unfold)

lemma page_svm:
  assumes "blobs_data inp = Inr (X, y)" and "circles_data inp = Inr (Xc, yc)"
  shows "\<exists>s'. support_vector_machines inp s = Inr s' \<and>
           page s' = page s @ displayed_svm inp X y Xc yc \<and>
           figures (plt s') = figures (plt s) @ page_figures (displayed_svm inp X y Xc yc)"
  using assms
  by (simp add: support_vector_machines_def create_font_def svm_blobs_section_run
      svm_fit_section_run svm_circles_section_run displayed_svm_def)

text \<open>A run from any session: the page gets the displayed elements, and pyplot, which
  keeps every figure it ever created, gets exactly the displayed figures on top of the
  ones it held before.\<close>

lemma app_run_any:
  obtains X y Xc yc s' where "blobs_data inp = Inr (X, y)" and "circles_data inp = Inr (Xc, yc)"
    and "app inp s = Inr s'" and "page s' = page s @ displayed_page inp X y Xc yc"
    and "figures (plt s') = figures (plt s) @ page_figures (displayed_page inp X y Xc yc)"
proof -
  obtain X y where b: "blobs_data inp = Inr (X, y)"
    using blobs_data_Inr by blast
  obtain Xc yc where c: "circles_data inp = Inr (Xc, yc)"
    using circles_data_Inr by blast
  let ?s0 = "st_write ''- Powerful supervised algorithms for regression or classification'' ((app_intro s)\<lparr>page := []\<rparr>)"
  obtain s' where svm: "support_vector_machines inp ?s0 = Inr s'"
    and ps: "page s' = page ?s0 @ displayed_svm inp X y Xc yc"
    and fs: "figures (plt s') = figures (plt ?s0) @ page_figures (displayed_svm inp X y Xc yc)"
    using page_svm [OF b c, of ?s0] by blast
  have "app inp s = Inr (s'\<lparr>page := page (app_intro s) @
                             [Expander ''Support Vector Machines'' (page s')]\<rparr>)"
    using svm by (simp add: app_def st_expander_def)
  moreover have "page (app_intro s) @ [Expander ''Support Vector Machines'' (page s')] =
      page s @ displayed_page inp X y Xc yc"
    using ps by (simp add: app_intro_def create_font_def st_write_def displayed_page_def)
  moreover have "figures (plt s') = figures (plt s) @ page_figures (displayed_page inp X y Xc yc)"
    using fs by (simp add: app_intro_def create_font_def st_write_def displayed_page_def)
  ultimately show ?thesis
    using b c that by force
qed

lemma app_run:
  obtains X y Xc yc s' where "blobs_data inp = Inr (X, y)" and "circles_data inp = Inr (Xc, yc)"
    and "app inp session_init = Inr s'" and "page s' = displayed_page inp X y Xc yc"
proof -
  obtain X y Xc yc s' where "blobs_data inp = Inr (X, y)" and "circles_data inp = Inr (Xc, yc)"
    and "app inp session_init = Inr s'" and "page s' = page session_init @ displayed_page inp X y Xc yc"
    by (rule app_run_any)
  then show ?thesis
    using that by (simp add: session_init_def)
qed

text \<open>C1: a run of the page never raises, and what it displays is exactly
  \<open>displayed_page\<close> of the data it generated: the title, the introduction and the
  expander holding the four figures with their text, in the order of the source. The
  page reaches its axes through stored references and through pyplot's current axes;
  every drawing lands on the figure that is displayed next.\<close>

theorem app_displays:
  "\<exists>X y Xc yc s'. blobs_data inp = Inr (X, y) \<and> circles_data inp = Inr (Xc, yc) \<and>
     app inp session_init = Inr s' \<and> page s' = displayed_page inp X y Xc yc"
  by (rule app_run) blast

lemma page_figures_displayed:
  "page_figures (displayed_page inp X y Xc yc) =
     [\<lparr>fig_axes = [blobs_axes inp X y]\<rparr>,
      \<lparr>fig_axes = [svc_overlay (svm_model inp X y) True (scatter_axes X y ''autumn'')]\<rparr>,
      \<lparr>fig_axes = [svc_overlay (circles_clf inp Xc yc) False (scatter_axes Xc yc ''autumn'')]\<rparr>,
      \<lparr>fig_axes = [projection_axes Xc yc 30 30]\<rparr>]"
  by (simp add: displayed_page_def displayed_svm_def)

subsection \<open>The lifted rings\<close>

lemma length_lifted_points [simp]: "length (lifted_points X) = length X"
  by (simp add: lifted_points_def radial_feature_def)

lemma lifted_points_pairs:
  assumes "rows_dim 2 X" and "length y = length X" and "(q, l) \<in> set (zip (lifted_points X) y)"
  shows "\<exists>a b. ([a, b], l) \<in> set (zip X y) \<and> q = [a, b, exp (- (a\<^sup>2 + b\<^sup>2))]"
proof -
  from assms(2,3) obtain j where j: "j < length X" and q: "q = lifted_points X ! j" and l: "l = y ! j"
    by (auto simp: set_zip)
  have "length (X ! j) = 2"
    using assms(1) j by (simp add: rows_dim_def list_all_length)
  then obtain a b where ab: "X ! j = [a, b]"
    by (auto simp: length_Suc_conv numeral_2_eq_2)
  have "q = [a, b, exp (- (a\<^sup>2 + b\<^sup>2))]"
    using q j ab by (simp add: lifted_points_def radial_feature_def col_def)
  moreover have "([a, b], l) \<in> set (zip X y)"
    using j l ab assms(2) by (metis in_set_zip fst_conv snd_conv)
  ultimately show ?thesis by blast
qed

lemma predict_radial_plane:
  "predict (radial_plane t) [a, b, r] = (if exp (- t) < r then 1 else 0)"
  by (simp add: predict_def decision_function_def dot_def radial_plane_def)

text \<open>A ring point of squared radius \<open>R\<close>, moved by a tenth of a draw in the unit
  square, keeps its squared norm within \<open>2 r / 5 + 1/50\<close> of \<open>R\<close>, where \<open>r\<close>
  bounds its coordinates.\<close>

lemma noisy_ring_gap:
  fixes a b z1 z2 :: real
  assumes "a\<^sup>2 + b\<^sup>2 = R" and "\<bar>z1\<bar> \<le> 1" and "\<bar>z2\<bar> \<le> 1" and "\<bar>a\<bar> \<le> r" and "\<bar>b\<bar> \<le> r"
  shows "R - 2 / 5 * r \<le> (a + 1 / 10 * z1)\<^sup>2 + (b + 1 / 10 * z2)\<^sup>2"
    and "(a + 1 / 10 * z1)\<^sup>2 + (b + 1 / 10 * z2)\<^sup>2 \<le> R + 2 / 5 * r + 1 / 50"
proof -
  have e: "(a + 1 / 10 * z1)\<^sup>2 + (b + 1 / 10 * z2)\<^sup>2 = R + (a * z1 + b * z2) / 5 + (z1\<^sup>2 + z2\<^sup>2) / 100"
    unfolding assms(1) [symmetric] by (simp add: power2_eq_square field_simps)
  have "\<bar>a\<bar> * \<bar>z1\<bar> \<le> r * 1"
    by (rule mult_mono) (use assms(2,4) in auto)
  moreover have "\<bar>b\<bar> * \<bar>z2\<bar> \<le> r * 1"
    by (rule mult_mono) (use assms(3,5) in auto)
  ultimately have az: "\<bar>a * z1\<bar> \<le> r" and bz: "\<bar>b * z2\<bar> \<le> r"
    by (simp_all add: abs_mult)
  have z1: "z1\<^sup>2 \<le> 1" and z2: "z2\<^sup>2 \<le> 1"
    using assms(2,3) by (simp_all add: abs_square_le_1)
  have s: "0 \<le> z1\<^sup>2 + z2\<^sup>2" by simp
  show "R - 2 / 5 * r \<le> (a + 1 / 10 * z1)\<^sup>2 + (b + 1 / 10 * z2)\<^sup>2"
    unfolding e using az bz s by (simp add: abs_le_iff field_simps)
  show "(a + 1 / 10 * z1)\<^sup>2 + (b + 1 / 10 * z2)\<^sup>2 \<le> R + 2 / 5 * r + 1 / 50"
    unfolding e using az bz z1 z2 by (simp add: abs_le_iff field_simps)
qed

lemma coord_bound:
  fixes a b :: real
  assumes "a\<^sup>2 + b\<^sup>2 = r\<^sup>2" and "0 \<le> r"
  shows "\<bar>a\<bar> \<le> r" and "\<bar>b\<bar> \<le> r"
proof -
  have "a\<^sup>2 \<le> r\<^sup>2" and "b\<^sup>2 \<le> r\<^sup>2"
    using assms(1) by (simp_all add: add_increasing add_increasing2 flip: assms(1))
  then show "\<bar>a\<bar> \<le> r" and "\<bar>b\<bar> \<le> r"
    using assms(2) by (simp_all add: abs_le_square_iff [of _ r, symmetric])
qed

subsection \<open>What does not depend on the checkbox\<close>

lemma data_show_lines:
  "blobs_data (inp\<lparr>show_lines := b\<rparr>) = blobs_data inp"
  "circles_data (inp\<lparr>show_lines := b\<rparr>) = circles_data inp"
  "svm_model (inp\<lparr>show_lines := b\<rparr>) = svm_model inp"
  "circles_clf (inp\<lparr>show_lines := b\<rparr>) = circles_clf inp"
  by (simp_all add: blobs_data_def circles_data_def svm_model_def circles_clf_def fun_eq_iff)

subsection \<open>Shapes of the drawn data\<close>

lemma labelled_scatter_ok [simp]: "artist_ok (labelled_scatter X y c) \<longleftrightarrow> length y = length X"
  by (simp add: labelled_scatter_def)

lemma candidate_line_ok [simp]: "artist_ok (candidate_line xs mb)"
  by (simp add: candidate_line_def)

lemma displayed_figures_ok:
  "length y = length X \<Longrightarrow> length yc = length Xc \<Longrightarrow>
   list_all figure_ok (page_figures (displayed_page inp X y Xc yc))"
  by (auto simp: page_figures_displayed figure_ok_def blobs_axes_def svc_overlay_def
      scatter_axes_def projection_axes_def radial_feature_def list_all_iff)

lemma blobs_data_lengths: "blobs_data inp = Inr (X, y) \<Longrightarrow> length y = length X"
  by (auto simp: blobs_data_def make_blobs_def Let_def split: if_splits)

lemma circles_data_rows:
  assumes "circle_draws_ok 100 (circle_rng inp)" and "circles_data inp = Inr (X, y)"
  shows "length y = length X \<and> rows_dim 2 X"
  using make_circles_shape [of "1 / 10" 100 "circle_rng inp" "Some (1 / 10)"] assms
  by (auto simp: circles_data_def)

lemma blobs_data_rows:
  assumes "blob_draws_ok 50 2 (blob_rng inp)" and "blobs_data inp = Inr (X, y)"
  shows "rows_dim 2 X"
  using make_blobs_shape [of 2 50 "blob_rng inp" "3 / 5"] assms
  by (auto simp: blobs_data_def)

text \<open>An axes holding only an autoscaled scatter of \<open>X\<close> shows every point of \<open>X\<close>.\<close>

lemma scatter_axes_in_view:
  assumes "p \<in> set X" and "artists a = [labelled_scatter X y c]" and "xlim a = None" and "ylim a = None"
  shows "in_view a p"
proof -
  have "p ! 0 \<in> set (col X 0)" and "p ! 1 \<in> set (col X 1)"
    using assms(1) by (auto simp: col_def)
  then show ?thesis
    using assms(2-4) autoscale_contains
    by (simp add: in_view_def get_xlim_def get_ylim_def labelled_scatter_def)
qed

end
