(* ===== verification/Runtime.thy ===== *)
theory Runtime
  imports Page
begin

text \<open>
  The Streamlit runtime around the page: Streamlit runs the whole script again on every
  interaction (here, ticking or clearing the checkbox of line 45), with the widget's new
  value, in the same Python process. What survives a rerun is the widget state and
  matplotlib's global pyplot state (\<open>plt\<close>), which keeps every figure it created until
  \<open>plt.close\<close> is called; the page shown is replaced by the elements of the new run.
  The blob draws are the same on every run (\<open>random_state=0\<close>, line 42) and the fit is
  deterministic (\<open>rt_config\<close>); the ring draws are fresh on every run (line 78 passes no
  \<open>random_state\<close>) and are carried by the event. \<open>rt_handle\<close> is one event,
  \<open>rt_run\<close> a sequence of them, \<open>rt_reachable\<close> the states a session can reach.
\<close>

record rt_config =
  cfg_blobs :: blob_draws
  cfg_fit :: "real \<Rightarrow> matrix \<Rightarrow> labels \<Rightarrow> linear_svc"

record runtime =
  rt_plt :: pyplot
  rt_checkbox :: bool
  rt_shown :: "element list"
  rt_runs :: nat

text \<open>A run of the script (the first one when the session opens, or a rerun), and a click
  on the checkbox, which flips its value and reruns; each with the ring draws of its run.\<close>

datatype rt_event = Rerun circle_draws | Toggle circle_draws

definition rt_init :: runtime where
  "rt_init = \<lparr>rt_plt = pyplot_init, rt_checkbox = False, rt_shown = [], rt_runs = 0\<rparr>"

definition run_input :: "rt_config \<Rightarrow> bool \<Rightarrow> circle_draws \<Rightarrow> page_input" where
  "run_input cfg ticked d =
     \<lparr>show_lines = ticked, blob_rng = cfg_blobs cfg, circle_rng = d, svc_fit = cfg_fit cfg\<rparr>"

text \<open>One run of \<open>app()\<close> on the surviving pyplot state, with an empty page.\<close>

definition rt_rerun :: "rt_config \<Rightarrow> circle_draws \<Rightarrow> runtime \<Rightarrow> py_error + runtime" where
  "rt_rerun cfg d rt =
     (case app (run_input cfg (rt_checkbox rt) d) \<lparr>plt = rt_plt rt, page = []\<rparr> of
        Inl e \<Rightarrow> Inl e
      | Inr s \<Rightarrow> Inr (rt\<lparr>rt_plt := plt s, rt_shown := page s, rt_runs := Suc (rt_runs rt)\<rparr>))"

fun rt_handle :: "rt_config \<Rightarrow> runtime \<Rightarrow> rt_event \<Rightarrow> py_error + runtime" where
  "rt_handle cfg rt (Rerun d) = rt_rerun cfg d rt"
| "rt_handle cfg rt (Toggle d) = rt_rerun cfg d (rt\<lparr>rt_checkbox := \<not> rt_checkbox rt\<rparr>)"

fun rt_run :: "rt_config \<Rightarrow> runtime \<Rightarrow> rt_event list \<Rightarrow> py_error + runtime" where
  "rt_run cfg rt [] = Inr rt"
| "rt_run cfg rt (ev # evs) =
     (case rt_handle cfg rt ev of
        Inl e \<Rightarrow> Inl e
      | Inr rt' \<Rightarrow> rt_run cfg rt' evs)"

inductive rt_reachable :: "rt_config \<Rightarrow> runtime \<Rightarrow> bool" for cfg where
  start: "rt_reachable cfg rt_init"
| step: "rt_reachable cfg rt \<Longrightarrow> rt_handle cfg rt ev = Inr rt' \<Longrightarrow> rt_reachable cfg rt'"

text \<open>The checkbox value a run uses: the old one on a plain rerun, the flipped one on a
  click.\<close>

fun event_checkbox :: "runtime \<Rightarrow> rt_event \<Rightarrow> bool" where
  "event_checkbox rt (Rerun d) = rt_checkbox rt"
| "event_checkbox rt (Toggle d) = (\<not> rt_checkbox rt)"

fun event_draws :: "rt_event \<Rightarrow> circle_draws" where
  "event_draws (Rerun d) = d"
| "event_draws (Toggle d) = d"

text \<open>What every state of a session satisfies: pyplot holds four figures per run, and
  after the first run the page shown is \<open>displayed_page\<close> for the current checkbox
  value and the ring draws of the last run, its figures being the last four pyplot holds.\<close>

definition rt_inv :: "rt_config \<Rightarrow> runtime \<Rightarrow> bool" where
  "rt_inv cfg rt \<longleftrightarrow> length (figures (rt_plt rt)) = 4 * rt_runs rt \<and>
     (0 < rt_runs rt \<longrightarrow>
        (\<exists>d X y Xc yc. blobs_data (run_input cfg (rt_checkbox rt) d) = Inr (X, y) \<and>
           circles_data (run_input cfg (rt_checkbox rt) d) = Inr (Xc, yc) \<and>
           rt_shown rt = displayed_page (run_input cfg (rt_checkbox rt) d) X y Xc yc \<and>
           drop (4 * (rt_runs rt - 1)) (figures (rt_plt rt)) = page_figures (rt_shown rt)))"

subsection \<open>One event\<close>

lemma rt_rerun_run:
  obtains X y Xc yc and s :: session where "blobs_data (run_input cfg (rt_checkbox rt) d) = Inr (X, y)"
    and "circles_data (run_input cfg (rt_checkbox rt) d) = Inr (Xc, yc)"
    and "rt_rerun cfg d rt = Inr (rt\<lparr>rt_plt := plt s, rt_shown := page s, rt_runs := Suc (rt_runs rt)\<rparr>)"
    and "page s = displayed_page (run_input cfg (rt_checkbox rt) d) X y Xc yc"
    and "figures (plt s) = figures (rt_plt rt) @
           page_figures (displayed_page (run_input cfg (rt_checkbox rt) d) X y Xc yc)"
proof -
  obtain X y Xc yc s where b: "blobs_data (run_input cfg (rt_checkbox rt) d) = Inr (X, y)"
    and c: "circles_data (run_input cfg (rt_checkbox rt) d) = Inr (Xc, yc)"
    and a: "app (run_input cfg (rt_checkbox rt) d) \<lparr>plt = rt_plt rt, page = []\<rparr> = Inr s"
    and p: "page s = page \<lparr>plt = rt_plt rt, page = []\<rparr> @
              displayed_page (run_input cfg (rt_checkbox rt) d) X y Xc yc"
    and f: "figures (plt s) = figures (plt \<lparr>plt = rt_plt rt, page = []\<rparr>) @
              page_figures (displayed_page (run_input cfg (rt_checkbox rt) d) X y Xc yc)"
    by (rule app_run_any)
  show ?thesis
    using a p f by (intro that [OF b c, of s]) (simp_all add: rt_rerun_def)
qed

text \<open>Every event completes (the page never raises) and shows the page of its checkbox
  value and its draws; pyplot keeps the old figures and gains the four shown ones.\<close>

lemma rt_handle_run:
  obtains X y Xc yc rt' where
    "blobs_data (run_input cfg (event_checkbox rt ev) (event_draws ev)) = Inr (X, y)"
    and "circles_data (run_input cfg (event_checkbox rt ev) (event_draws ev)) = Inr (Xc, yc)"
    and "rt_handle cfg rt ev = Inr rt'"
    and "rt_shown rt' = displayed_page (run_input cfg (event_checkbox rt ev) (event_draws ev)) X y Xc yc"
    and "figures (rt_plt rt') = figures (rt_plt rt) @ page_figures (rt_shown rt')"
    and "rt_checkbox rt' = event_checkbox rt ev" and "rt_runs rt' = Suc (rt_runs rt)"
proof (cases ev)
  case (Rerun d)
  obtain X y Xc yc and s :: session where "blobs_data (run_input cfg (rt_checkbox rt) d) = Inr (X, y)"
    and "circles_data (run_input cfg (rt_checkbox rt) d) = Inr (Xc, yc)"
    and "rt_rerun cfg d rt = Inr (rt\<lparr>rt_plt := plt s, rt_shown := page s, rt_runs := Suc (rt_runs rt)\<rparr>)"
    and "page s = displayed_page (run_input cfg (rt_checkbox rt) d) X y Xc yc"
    and "figures (plt s) = figures (rt_plt rt) @
           page_figures (displayed_page (run_input cfg (rt_checkbox rt) d) X y Xc yc)"
    by (rule rt_rerun_run)
  then show ?thesis
    using that Rerun by simp
next
  case (Toggle d)
  let ?rt = "rt\<lparr>rt_checkbox := \<not> rt_checkbox rt\<rparr>"
  obtain X y Xc yc and s :: session where "blobs_data (run_input cfg (rt_checkbox ?rt) d) = Inr (X, y)"
    and "circles_data (run_input cfg (rt_checkbox ?rt) d) = Inr (Xc, yc)"
    and "rt_rerun cfg d ?rt = Inr (?rt\<lparr>rt_plt := plt s, rt_shown := page s, rt_runs := Suc (rt_runs ?rt)\<rparr>)"
    and "page s = displayed_page (run_input cfg (rt_checkbox ?rt) d) X y Xc yc"
    and "figures (plt s) = figures (rt_plt ?rt) @
           page_figures (displayed_page (run_input cfg (rt_checkbox ?rt) d) X y Xc yc)"
    by (rule rt_rerun_run)
  then show ?thesis
    using that Toggle by simp
qed

lemma length_page_figures_displayed [simp]:
  "length (page_figures (displayed_page inp X y Xc yc)) = 4"
  by (simp add: page_figures_displayed)

lemma displayed_figures_single_axes:
  "list_all (\<lambda>f. length (fig_axes f) = 1) (page_figures (displayed_page inp X y Xc yc))"
  by (simp add: page_figures_displayed)

subsection \<open>The invariant\<close>

lemma rt_inv_init: "rt_inv cfg rt_init"
  by (simp add: rt_inv_def rt_init_def pyplot_init_def)

lemma rt_handle_inv:
  assumes "rt_handle cfg rt ev = Inr rt'" and "rt_inv cfg rt"
  shows "rt_inv cfg rt'"
proof -
  obtain X y Xc yc rt'' where
    b: "blobs_data (run_input cfg (event_checkbox rt ev) (event_draws ev)) = Inr (X, y)"
    and c: "circles_data (run_input cfg (event_checkbox rt ev) (event_draws ev)) = Inr (Xc, yc)"
    and h: "rt_handle cfg rt ev = Inr rt''"
    and sh: "rt_shown rt'' = displayed_page (run_input cfg (event_checkbox rt ev) (event_draws ev)) X y Xc yc"
    and fs: "figures (rt_plt rt'') = figures (rt_plt rt) @ page_figures (rt_shown rt'')"
    and cb: "rt_checkbox rt'' = event_checkbox rt ev" and rn: "rt_runs rt'' = Suc (rt_runs rt)"
    by (rule rt_handle_run)
  have r: "rt'' = rt'" using h assms(1) by simp
  have l: "length (figures (rt_plt rt)) = 4 * rt_runs rt"
    using assms(2) by (simp add: rt_inv_def)
  have len: "length (figures (rt_plt rt')) = 4 * rt_runs rt'"
    using r fs sh rn l by simp
  have dr: "drop (4 * (rt_runs rt' - 1)) (figures (rt_plt rt')) = page_figures (rt_shown rt')"
    using r fs rn l by simp
  have sh': "rt_shown rt' = displayed_page (run_input cfg (rt_checkbox rt') (event_draws ev)) X y Xc yc"
    and b': "blobs_data (run_input cfg (rt_checkbox rt') (event_draws ev)) = Inr (X, y)"
    and c': "circles_data (run_input cfg (rt_checkbox rt') (event_draws ev)) = Inr (Xc, yc)"
    using sh b c cb r by simp_all
  show ?thesis
    unfolding rt_inv_def using len dr sh' b' c' by blast
qed

lemma rt_reachable_inv: "rt_reachable cfg rt \<Longrightarrow> rt_inv cfg rt"
proof (induction rule: rt_reachable.induct)
  case start
  show ?case by (rule rt_inv_init)
next
  case (step rt ev rt')
  show ?case by (rule rt_handle_inv [OF step.hyps(2) step.IH])
qed

subsection \<open>Sequences of events\<close>

text \<open>From a reachable state every sequence of events runs to its end, one run per event,
  through reachable states.\<close>

lemma rt_run_from:
  "rt_reachable cfg rt \<Longrightarrow>
   \<exists>rt'. rt_run cfg rt evs = Inr rt' \<and> rt_reachable cfg rt' \<and> rt_runs rt' = rt_runs rt + length evs"
proof (induction evs arbitrary: rt)
  case Nil
  then show ?case by simp
next
  case (Cons ev evs)
  obtain rt1 where h: "rt_handle cfg rt ev = Inr rt1" and n: "rt_runs rt1 = Suc (rt_runs rt)"
    by (rule rt_handle_run [of cfg rt ev]) blast
  have "rt_reachable cfg rt1"
    by (rule rt_reachable.step [OF Cons.prems h])
  then obtain rt' where "rt_run cfg rt1 evs = Inr rt'" and "rt_reachable cfg rt'"
    and "rt_runs rt' = rt_runs rt1 + length evs"
    using Cons.IH by blast
  then show ?case
    using h n by simp
qed

subsection \<open>What a rerun keeps and what it changes\<close>

text \<open>With the ring draws \<open>[z1, z2]\<close> first and the identity shuffle, the first ring
  point is the outer point \<open>(1, 0)\<close> moved by a tenth of the draw.\<close>

lemma first_ring_point:
  assumes "circles_data (run_input cfg b \<lparr>circle_shuffle = [0..<100],
             circle_normal = [z1, z2] # replicate 99 [0, 0]\<rparr>) = Inr (Xc, yc)"
  shows "col Xc 0 ! 0 = 1 + 1 / 10 * z1"
proof -
  let ?L = "circle_layout 100 (1 / 10)"
  have p: "permute [0..<100] ?L = ?L"
    using permute_upt [of ?L] by simp
  have X: "Xc = add_scaled (1 / 10) ?L ([z1, z2] # replicate 99 [0, 0])"
    using assms make_circles_unfold [of "1 / 10" "Some (1 / 10)" 100] p
    by (simp add: circles_data_def run_input_def)
  have "?L ! 0 = [1, 0]"
    using circle_layout_points [of 100 25 "1 / 10"] by simp
  then show ?thesis
    using X by (simp add: col_def nth_add_scaled)
qed

lemma blob_figures_same_checkbox:
  "take 2 (page_figures (displayed_page (run_input cfg b d) X y Xc yc)) =
   take 2 (page_figures (displayed_page (run_input cfg b d') X y Xc' yc'))"
  by (simp add: page_figures_displayed blobs_axes_def svm_model_def run_input_def)

lemma blobs_data_run_input:
  "blobs_data (run_input cfg b d) = blobs_data (run_input cfg b d')"
  by (simp add: blobs_data_def run_input_def)

lemma ring_figure_scatter:
  "hd (artists (hd (fig_axes (page_figures (displayed_page inp X y Xc yc) ! 2)))) =
   labelled_scatter Xc yc ''autumn''"
  by (simp add: page_figures_displayed svc_overlay_def scatter_axes_def)

end
