(* ===== verification/Spec2Isabelle.thy ===== *)
theory Spec2Isabelle
  imports Runtime
begin

text \<open>
  Verification development of UlieSS/GiT-ml-intro: the Streamlit page
  src/src/pages/machine_learning.py, which explains support vector machines with
  generated data and four matplotlib figures.

  \<^bold>\<open>The program.\<close> \<open>app\<close> (lines 10--36) writes a title and an introduction and
  opens an expander in which \<open>support_vector_machines\<close> (lines 39--104) runs: it
  generates two blobs (\<open>make_blobs\<close>, line 42), shows them with three hand-picked
  dividing lines when a checkbox is ticked (lines 43--52), fits a linear SVC with
  \<open>C=1E10\<close> (lines 57--59) and shows its decision boundary and support vectors
  (lines 66--70), then generates two concentric rings (\<open>make_circles\<close>, line 78),
  fits a linear SVC with the default \<open>C\<close> (line 81), shows the failed boundary
  (lines 79--84) and a 3-D view of the rings lifted by the radial feature
  \<open>exp(-(x\<^sup>2 + y\<^sup>2))\<close> (\<open>plot_3D\<close>, lines 106--115). The page calls scikit-learn,
  numpy, matplotlib, Streamlit and two helpers of its own \<open>utils\<close> module
  (\<open>create_font\<close>, \<open>plot_svc_decision_function\<close>), which is not among the sources.

  \<^bold>\<open>Theories.\<close>
  \<^item> \<open>Model_Prelude\<close>: rows and matrices as real lists, Python exceptions
    (\<open>py_error\<close>), numpy fancy indexing by a permutation (\<open>permute\<close>,
    \<open>valid_perm\<close>) with the multiset and pairing lemmas every shuffled dataset needs.
  \<^item> \<open>Linspace\<close>: \<open>numpy.linspace\<close> as numpy computes it, its closed form (the final
    \<open>y[-1] = stop\<close> is redundant in exact arithmetic), end points, spacing, order, bounds.
  \<^item> \<open>Datasets\<close>: \<open>make_blobs\<close> and \<open>make_circles\<close> after scikit-learn's algorithm,
    with the generator's draws as inputs (determinism under a fixed seed) and their
    raises as \<open>Inl\<close> values (no centres; a factor outside \<open>[0, 1)\<close>; a negative spread
    or noise, on which numpy's \<open>normal\<close> raises): shapes,
    the balance of the per-centre counts (the loop \<open>n_samples_per_center[i] += 1\<close>
    against its closed form), each point beside its own centre or on its own ring.
  \<^item> \<open>Classifier\<close>: the fitted linear SVC (\<open>decision_function\<close>, \<open>predict\<close>,
    the training error count); a point between two points of the other label defeats
    every linear classifier.
  \<^item> \<open>Pyplot\<close>: matplotlib's store of figures, the current figure, axes, artists,
    limits with autoscaling (every data value strictly inside the view); frame lemmas
    (drawing on one axes changes no other); the array shapes each artist needs
    (\<open>artist_ok\<close>).
  \<^item> \<open>SVC_Plot\<close>: \<open>plot_svc_decision_function\<close> (spec section 4.3): a grid of
    decision values spanning the view (30 by 30 as in the published helper; the spec
    says only that it is dense), contour levels \<open>-1, 0, 1\<close>, support
    rings, and the view restored.
  \<^item> \<open>Page\<close>: Streamlit's session (emitted elements), \<open>plot_3D\<close>, the three sections
    of \<open>support_vector_machines\<close>, \<open>app\<close>; \<open>displayed_page\<close> describes what a run
    shows and \<open>app_displays\<close> proves that \<open>app\<close> refines it, from any pyplot state
    (\<open>app_run_any\<close>: the figures pyplot gains are exactly the displayed ones).
  \<^item> \<open>Runtime\<close>: Streamlit's script runner. A session is a state (\<open>runtime\<close>: the
    surviving pyplot store, the checkbox value, the page shown, the number of runs);
    \<open>rt_handle\<close> is one event (a rerun, or a click on the checkbox that flips it and
    reruns), \<open>rt_run\<close> a sequence of events, \<open>rt_reachable\<close> the inductive set of
    states a session reaches. The invariant \<open>rt_inv\<close> (four figures per run; the page
    shown is \<open>displayed_page\<close> for the current checkbox) holds in every reachable state
    by rule induction.
  \<^item> this theory: the properties of the program, C2--C23 (C1 is in \<open>Page\<close>), grouped
    as the figures of one run (C2--C5, C8), why the linear fit fails on the rings and
    the projection succeeds (C6, C7, C14), the echoed code (C9), the datasets (C10,
    C11), the candidate lines (C12, C13), reruns of the script (C15--C19), and the
    shapes and extent of what is drawn (C20 the array shapes matplotlib requires, C21
    the scatter arrays zip back into the data, C22 no blob is clipped by an autoscaled
    view, C23 the ticked first figure shows the lines edge to edge and unclipped); then
    one witness for every claim with a hypothesis.

  \<^bold>\<open>Inputs and bounds.\<close> The draws of the random generators are inputs: well-formed
  when they have the shapes \<open>blob_draws_ok\<close> and \<open>circle_draws_ok\<close> name, which the
  claims about datasets assume. C7 bounds each normal draw by 1 in absolute value,
  which with noise 0.1 keeps the two rings apart (outer squared norm at least 3/5,
  inner at most 7/100). No loop of the program can diverge: the Python loops are
  folds over fixed lists, so the model needs no fuel.

  \<^bold>\<open>Not modelled.\<close> Floating-point rounding (numpy float64 is read as exact real
  arithmetic); the random generators themselves (their draws are inputs); libsvm's
  solver (the fit is an input of a run, so every property holds for whatever model
  the solver returns); pixels and colours; the narrative text beyond the first line of each block;
  Streamlit's threads, \<open>session_state\<close> and caching, and the browser.
\<close>

text \<open>The page input the witnesses below run the page on: identity shuffles, zero
  normal draws, blob centres \<open>(1, 4)\<close> and \<open>(2, 1)\<close>, and a fit that returns the zero
  model.\<close>

abbreviation example_input :: page_input where
  "example_input \<equiv> \<lparr>show_lines = False,
     blob_rng = \<lparr>centers_draw = [[1, 4], [2, 1]], normal_draw = replicate 50 [0, 0],
                 shuffle_draw = [0..<50]\<rparr>,
     circle_rng = \<lparr>circle_shuffle = [0..<100], circle_normal = replicate 100 [0, 0]\<rparr>,
     svc_fit = (\<lambda>c X y. \<lparr>coef = [0, 0], intercept = 0, support_vectors = [], classes = [0, 1]\<rparr>)\<rparr>"

text \<open>A session configuration for the witnesses: the blob draws and fit of
  \<open>example_input\<close>.\<close>

abbreviation example_config :: rt_config where
  "example_config \<equiv> \<lparr>cfg_blobs = blob_rng example_input, cfg_fit = svc_fit example_input\<rparr>"

subsection \<open>The first figure and the checkbox\<close>

text \<open>C2: the first figure shows the blobs alone when the checkbox is clear, and the blobs
  with exactly the three dividing lines \<open>y = x + 0.65\<close>, \<open>y = 0.5 x + 1.6\<close> and
  \<open>y = -0.2 x + 2.9\<close> over \<open>xfit\<close>, with the x range fixed to \<open>[-1, 3.5]\<close>, when it is
  ticked.\<close>

theorem first_figure_toggle:
  "\<exists>X y s'. blobs_data inp = Inr (X, y) \<and> app inp session_init = Inr s' \<and>
     hd (page_figures (page s')) =
       \<lparr>fig_axes = [(empty_axes False)\<lparr>
          artists := labelled_scatter X y ''winter'' #
            (if show_lines inp
             then [Line2D xfit (map (\<lambda>x. 1 * x + 13 / 20) xfit) ''-k'',
                   Line2D xfit (map (\<lambda>x. 1 / 2 * x + 8 / 5) xfit) ''-k'',
                   Line2D xfit (map (\<lambda>x. - 1 / 5 * x + 29 / 10) xfit) ''-k'']
             else []),
          xlim := (if show_lines inp then Some (-1, 7 / 2) else None)\<rparr>]\<rparr>"
proof -
  obtain X y Xc yc s' where b: "blobs_data inp = Inr (X, y)"
    and r: "app inp session_init = Inr s'" and p: "page s' = displayed_page inp X y Xc yc"
    by (rule app_run) blast
  show ?thesis
    using b r p
    by (auto simp: page_figures_displayed blobs_axes_def candidate_lines_def candidate_line_def)
qed

subsection \<open>The boundary figures and the projection\<close>

lemma scatter_axes_view:
  "get_xlim (scatter_axes X y cmap) = autoscale (col X 0)"
  "get_ylim (scatter_axes X y cmap) = autoscale (col X 1)"
  by (simp_all add: get_xlim_def get_ylim_def scatter_axes_def empty_axes_def labelled_scatter_def)

text \<open>C3: the second figure shows the blobs and the decision boundary of the model fitted
  on those same blobs with \<open>C = 1E10\<close> (the fit precedes the drawing and uses the
  displayed data), its margins and its circled support vectors, over the view the scatter
  had, which the overlay leaves unchanged.\<close>

theorem second_figure_boundary:
  "\<exists>X y s'. blobs_data inp = Inr (X, y) \<and> app inp session_init = Inr s' \<and>
     page_figures (page s') ! 1 =
       \<lparr>fig_axes = [(empty_axes False)\<lparr>
          artists := [labelled_scatter X y ''autumn'',
            boundary_contour (svc_fit inp 10000000000 X y) (autoscale (col X 0)) (autoscale (col X 1)),
            support_rings (svc_fit inp 10000000000 X y)],
          xlim := Some (autoscale (col X 0)), ylim := Some (autoscale (col X 1))\<rparr>]\<rparr>"
proof -
  obtain X y Xc yc s' where "blobs_data inp = Inr (X, y)" and "app inp session_init = Inr s'"
    and "page s' = displayed_page inp X y Xc yc"
    by (rule app_run)
  then show ?thesis
    by (auto simp: page_figures_displayed svc_overlay_def scatter_axes_view svm_model_def)
      (simp add: scatter_axes_def)
qed

text \<open>C4: the third figure is the one created at line 79: the scatter of the rings, drawn
  through pyplot's current axes (\<open>plt.scatter\<close>), lands on it, together with the
  boundary of the linear fit with the default \<open>C = 1\<close> and no support rings.\<close>

theorem third_figure_rings:
  "\<exists>X y s'. circles_data inp = Inr (X, y) \<and> app inp session_init = Inr s' \<and>
     page_figures (page s') ! 2 =
       \<lparr>fig_axes = [(empty_axes False)\<lparr>
          artists := [labelled_scatter X y ''autumn'',
            boundary_contour (svc_fit inp 1 X y) (autoscale (col X 0)) (autoscale (col X 1))],
          xlim := Some (autoscale (col X 0)), ylim := Some (autoscale (col X 1))\<rparr>]\<rparr>"
proof -
  obtain X y Xc yc s' where "circles_data inp = Inr (Xc, yc)" and "app inp session_init = Inr s'"
    and "page s' = displayed_page inp X y Xc yc"
    by (rule app_run)
  then show ?thesis
    by (auto simp: page_figures_displayed svc_overlay_def scatter_axes_view circles_clf_def)
      (simp add: scatter_axes_def)
qed

text \<open>C5: the fourth figure is a 3-D axes viewed from elevation 30 and azimuth 30,
  labelled \<open>x\<close>, \<open>y\<close>, \<open>r\<close>, showing each ring point at height
  \<open>exp(-(x\<^sup>2 + y\<^sup>2))\<close> in the colour of its label.\<close>

theorem fourth_figure_projection:
  "\<exists>X y s'. circles_data inp = Inr (X, y) \<and> app inp session_init = Inr s' \<and>
     page_figures (page s') ! 3 =
       \<lparr>fig_axes = [(empty_axes True)\<lparr>
          artists := [Scatter3D (col X 0) (col X 1)
                        (map (\<lambda>p. exp (- row_sq_norm p)) X) y 50 ''autumn''],
          view := Some (30, 30), axis_labels := [''x'', ''y'', ''r'']\<rparr>]\<rparr>"
proof -
  obtain X y Xc yc s' where "circles_data inp = Inr (Xc, yc)" and "app inp session_init = Inr s'"
    and "page s' = displayed_page inp X y Xc yc"
    by (rule app_run)
  then show ?thesis
    by (auto simp: page_figures_displayed projection_axes_def radial_feature_def)
qed

subsection \<open>Why the linear fit fails on the rings, and why the projection helps\<close>

lemma circles_data_layout:
  assumes "circle_draws_ok 100 (circle_rng inp)"
    and "circle_normal (circle_rng inp) = replicate 100 [0, 0]"
    and "circles_data inp = Inr (X, y)"
  shows "set (zip X y) = set (zip (circle_layout 100 (1 / 10)) (circle_labels 100))"
proof -
  let ?p = "circle_shuffle (circle_rng inp)"
  have p: "valid_perm 100 ?p"
    using assms(1) by (simp add: circle_draws_ok_def)
  have r: "rows_dim 2 (permute ?p (circle_layout 100 (1 / 10)))"
    using p rows_dim_circle_layout [of 100 "1 / 10"] by (simp add: rows_dim_def list_all_permute)
  have l: "length (permute ?p (circle_layout 100 (1 / 10))) = 100"
    using p by (simp add: valid_perm_def)
  have "X = permute ?p (circle_layout 100 (1 / 10))" and "y = permute ?p (circle_labels 100)"
    using assms(2,3) make_circles_unfold [of "1 / 10" "Some (1 / 10)" 100 "circle_rng inp"]
      add_scaled_zero [OF r, of "1 / 10"] l
    by (simp_all add: circles_data_def)
  then show ?thesis
    using p by (simp add: set_zip_permute)
qed

text \<open>C6: on the page's rings without noise, the linear SVC the page fits at line 81 (like
  any linear classifier) misclassifies at least one training point: the inner point
  \<open>(0.1, 0)\<close> lies between the outer points \<open>(1, 0)\<close> and \<open>(-1, 0)\<close>.\<close>

theorem rings_not_linearly_separable:
  assumes "circle_draws_ok 100 (circle_rng inp)"
    and "circle_normal (circle_rng inp) = replicate 100 [0, 0]"
    and "circles_data inp = Inr (X, y)"
  shows "0 < n_errors (circles_clf inp X y) X y"
proof -
  have S: "set (zip X y) = set (zip (circle_layout 100 (1 / 10)) (circle_labels 100))"
    by (rule circles_data_layout [OF assms])
  have pts: "circle_layout 100 (1 / 10) ! 0 = [1, 0]" "circle_layout 100 (1 / 10) ! 25 = [-1, 0]"
    "circle_layout 100 (1 / 10) ! 50 = [1 / 10, 0]"
    using circle_layout_points [of 100 25 "1 / 10"] by simp_all
  have mem: "(circle_layout 100 (1 / 10) ! i, circle_labels 100 ! i) \<in>
      set (zip (circle_layout 100 (1 / 10)) (circle_labels 100))" if "i < 100" for i
    using that by (auto simp: set_zip)
  have a: "([1, 0], 0) \<in> set (zip X y)"
    using mem [of 0] pts S by (simp add: circle_labels_nth)
  have b: "([-1, 0], 0) \<in> set (zip X y)"
    using mem [of 25] pts S by (simp add: circle_labels_nth)
  have c: "(comb (11 / 20) [1, 0] [-1, 0], 1) \<in> set (zip X y)"
    using mem [of 50] pts S by (simp add: circle_labels_nth comb_def)
  show ?thesis
    by (rule convex_combination_misclassified [OF a b c]) simp_all
qed

text \<open>C7: The projection the page draws does separate the rings. If every
  standard-normal draw of \<open>make_circles\<close> lies in \<open>[-1, 1]\<close>, the points
  \<open>(x, y, exp (-(x\<^sup>2 + y\<^sup>2)))\<close> of the fourth figure are classified without an error by
  the plane \<open>r = exp (-1/2)\<close>: the outer ring, moved by at most a tenth in each
  coordinate, stays above squared norm 3/5, the inner one below 7/100.\<close>

theorem lifted_rings_separable:
  assumes "circle_draws_ok 100 (circle_rng inp)"
    and "\<forall>z\<in>set (circle_normal (circle_rng inp)). \<forall>e\<in>set z. \<bar>e\<bar> \<le> 1"
    and "circles_data inp = Inr (X, y)"
  shows "n_errors (radial_plane (1 / 2)) (lifted_points X) y = 0"
proof -
  have circ: "make_circles 100 (1 / 10) (Some (1 / 10)) (circle_rng inp) = Inr (X, y)"
    using assms(3) by (simp add: circles_data_def)
  have "rows_dim 2 X \<and> length X = 100 \<and> length y = 100"
    using make_circles_shape [of "1 / 10" 100 "circle_rng inp" "Some (1 / 10)"] assms(1) circ
    by auto
  then have rX: "rows_dim 2 X" and ly: "length y = length X"
    by simp_all
  show ?thesis
    unfolding n_errors_zero_iff
  proof clarify
    fix q l
    assume "(q, l) \<in> set (zip (lifted_points X) y)"
    then obtain a b where ab: "([a, b], l) \<in> set (zip X y)" and q: "q = [a, b, exp (- (a\<^sup>2 + b\<^sup>2))]"
      using lifted_points_pairs [OF rX ly] by blast
    obtain a' b' z1 z2 where r: "a'\<^sup>2 + b'\<^sup>2 = (if l = 0 then 1 else (1 / 10)\<^sup>2)" and l2: "l < 2"
      and z: "[z1, z2] \<in> set (circle_normal (circle_rng inp))"
      and p: "[a, b] = [a' + 1 / 10 * z1, b' + 1 / 10 * z2]"
      using make_circles_noisy_rings [OF _ _ assms(1) circ ab] by auto
    have z1: "\<bar>z1\<bar> \<le> 1" and z2: "\<bar>z2\<bar> \<le> 1"
      using assms(2) z by auto
    show "predict (radial_plane (1 / 2)) q = l"
    proof (cases "l = 0")
      case True
      then have "a'\<^sup>2 + b'\<^sup>2 = 1\<^sup>2" using r by simp
      then have "3 / 5 \<le> a\<^sup>2 + b\<^sup>2"
        using noisy_ring_gap(1) [OF _ z1 z2 coord_bound [of a' b' 1]] p by simp
      then have "exp (- (a\<^sup>2 + b\<^sup>2)) < exp (- (1 / 2))"
        by simp
      then show ?thesis
        using True q by (simp add: predict_radial_plane)
    next
      case False
      then have l: "l = 1" using l2 by simp
      have "a'\<^sup>2 + b'\<^sup>2 = (1 / 10)\<^sup>2" using r False by simp
      then have "a\<^sup>2 + b\<^sup>2 \<le> 7 / 100"
        using noisy_ring_gap(2) [OF _ z1 z2 coord_bound [of a' b' "1 / 10"]] p by (simp add: power2_eq_square)
      then have "exp (- (1 / 2)) < exp (- (a\<^sup>2 + b\<^sup>2))"
        by simp
      then show ?thesis
        using l q by (simp add: predict_radial_plane)
    qed
  qed
qed

subsection \<open>The checkbox, the echoed code and the two datasets\<close>

text \<open>C8: The checkbox changes only the first figure: for the same draws and the same
  fit, ticking or clearing it leaves the boundary figures and the projection as they
  were.\<close>

theorem checkbox_changes_first_figure_only:
  "\<exists>s1 s2. app inp session_init = Inr s1 \<and> app (inp\<lparr>show_lines := b\<rparr>) session_init = Inr s2 \<and>
     tl (page_figures (page s1)) = tl (page_figures (page s2))"
proof -
  obtain X y Xc yc s1 where b1: "blobs_data inp = Inr (X, y)" and c1: "circles_data inp = Inr (Xc, yc)"
    and r1: "app inp session_init = Inr s1" and p1: "page s1 = displayed_page inp X y Xc yc"
    by (rule app_run)
  obtain X' y' Xc' yc' s2 where b2: "blobs_data (inp\<lparr>show_lines := b\<rparr>) = Inr (X', y')"
    and c2: "circles_data (inp\<lparr>show_lines := b\<rparr>) = Inr (Xc', yc')"
    and r2: "app (inp\<lparr>show_lines := b\<rparr>) session_init = Inr s2"
    and p2: "page s2 = displayed_page (inp\<lparr>show_lines := b\<rparr>) X' y' Xc' yc'"
    by (rule app_run)
  have "X' = X" "y' = y" "Xc' = Xc" "yc' = yc"
    using b1 b2 c1 c2 by (simp_all add: data_show_lines)
  then show ?thesis
    using r1 r2 p1 p2 by (auto simp: page_figures_displayed data_show_lines)
qed

text \<open>C9: The string passed to \<open>st.echo\<close> at line 54 is its \<open>code_location\<close>
  argument, not a caption: the page shows the echoed code and nowhere shows the text
  ''Fit an SVM classifier in 2 lines of code''.\<close>

theorem echo_caption_not_displayed:
  "\<exists>s'. app inp session_init = Inr s' \<and>
     svm_fit_code \<in> set (concat (map element_texts (page s'))) \<and>
     ''Fit an SVM classifier in 2 lines of code'' \<notin> set (concat (map element_texts (page s')))"
proof -
  obtain X y Xc yc s' where r: "app inp session_init = Inr s'" and p: "page s' = displayed_page inp X y Xc yc"
    by (rule app_run)
  then show ?thesis
    by (auto simp: displayed_page_def displayed_svm_def svm_fit_code_def blobs_axes_def
        svc_overlay_def scatter_axes_def projection_axes_def empty_axes_def)
qed

text \<open>C10: With well-formed draws, the first dataset has 50 points in the plane, 25 of
  each label, and every point is its blob's centre plus 0.6 times a standard-normal draw.\<close>

theorem blobs_data_shape:
  assumes "blob_draws_ok 50 2 (blob_rng inp)"
  shows "\<exists>X y. blobs_data inp = Inr (X, y) \<and> length X = 50 \<and> length y = 50 \<and> rows_dim 2 X \<and>
           count_list y 0 = 25 \<and> count_list y 1 = 25 \<and>
           (\<forall>(x, l)\<in>set (zip X y). \<exists>z\<in>set (normal_draw (blob_rng inp)).
              x = map2 (\<lambda>a e. a + 3 / 5 * e) (centers_draw (blob_rng inp) ! l) z)"
proof -
  obtain X y where d: "make_blobs 50 2 (3 / 5) (blob_rng inp) = Inr (X, y)"
    and s: "length X = 50" "length y = 50" "rows_dim 2 X"
    using make_blobs_shape [OF _ assms, of "3 / 5"] by auto
  have "count_list y 0 = 25" "count_list y 1 = 25"
    using make_blobs_balanced [OF _ assms d, of 0] make_blobs_balanced [OF _ assms d, of 1] by simp_all
  moreover have "\<forall>(x, l)\<in>set (zip X y). \<exists>z\<in>set (normal_draw (blob_rng inp)).
      x = map2 (\<lambda>a e. a + 3 / 5 * e) (centers_draw (blob_rng inp) ! l) z"
    using make_blobs_rows_near_centres [OF _ assms d] by auto
  ultimately show ?thesis
    using d s by (auto simp: blobs_data_def)
qed

text \<open>C11: With well-formed draws, the ring dataset has 100 points in the plane, 50 on
  each ring, labelled 0 (outer) or 1 (inner).\<close>

theorem circles_data_shape:
  assumes "circle_draws_ok 100 (circle_rng inp)"
  shows "\<exists>X y. circles_data inp = Inr (X, y) \<and> length X = 100 \<and> length y = 100 \<and> rows_dim 2 X \<and>
           count_list y 0 = 50 \<and> count_list y 1 = 50 \<and> list_all (\<lambda>l. l < 2) y"
  using make_circles_shape [of "1 / 10" 100 "circle_rng inp" "Some (1 / 10)"] assms
  by (simp add: circles_data_def)

subsection \<open>The candidate lines\<close>

text \<open>C12: The loop of lines 48--51 calls \<open>ax.set_xlim(-1, 3.5)\<close> after each line; this
  is the same as drawing the three lines and then fixing the x range once.\<close>

theorem candidate_xlim_hoisted:
  "draw_candidates ax st =
     ax_set_xlim (foldl (\<lambda>st mb. ax_add st ax (candidate_line xfit mb)) st candidate_lines) ax (-1, 7 / 2)"
  unfolding draw_candidates_def candidate_lines_def by (rule draw_candidates_hoist_Cons)

text \<open>C13: \<open>xfit = np.linspace(-1, 3.5)\<close> is the sorted grid of 50 points from -1
  to 3.5 with spacing 9/98.\<close>

theorem xfit_grid:
  "length xfit = 50 \<and> hd xfit = -1 \<and> last xfit = 7 / 2 \<and> sorted xfit \<and>
   (\<forall>i. Suc i < 50 \<longrightarrow> xfit ! Suc i - xfit ! i = 9 / 98)"
proof -
  have "linspace_step (-1) (7 / 2) 50 True = 9 / 98"
    by (simp add: linspace_step_def linspace_div_def)
  then have "\<forall>i. Suc i < 50 \<longrightarrow> xfit ! Suc i - xfit ! i = 9 / 98"
    using linspace_pt_step [of "-1" "7 / 2" 50 True] by (simp add: xfit_def nth_linspace)
  then show ?thesis
    by (simp add: xfit_def hd_linspace last_linspace sorted_linspace)
qed

subsection \<open>The projection's height\<close>

text \<open>C14: The height \<open>r = exp(-(x\<^sup>2 + y\<^sup>2))\<close> of line 107 lies in \<open>(0, 1]\<close> and
  reverses the order of the squared distance to the origin: a point is at least as high
  as another exactly when it is at least as close to the origin.\<close>

theorem radial_feature_decreasing:
  assumes "i < length X" and "j < length X"
  shows "(radial_feature X ! i \<le> radial_feature X ! j \<longleftrightarrow> row_sq_norm (X ! j) \<le> row_sq_norm (X ! i)) \<and>
         0 < radial_feature X ! i \<and> radial_feature X ! i \<le> 1"
  using assms by (simp add: radial_feature_def)

subsection \<open>Reruns of the script\<close>

text \<open>C15: The page never closes a figure: after \<open>n\<close> runs of the script in a session
  (the first one and every rerun the checkbox causes), pyplot holds \<open>4 n\<close> figures.\<close>

theorem rerun_figures_accumulate:
  "rt_reachable cfg rt \<Longrightarrow> length (figures (rt_plt rt)) = 4 * rt_runs rt"
  using rt_reachable_inv [of cfg rt] by (simp add: rt_inv_def)

text \<open>C16: However many figures pyplot has accumulated, after every run the page shows
  \<open>displayed_page\<close> for the checkbox's current value and the ring draws of that run, and
  its four figures are the last four pyplot created.\<close>

theorem rerun_shows_current_page:
  assumes "rt_reachable cfg rt" and "0 < rt_runs rt"
  shows "\<exists>d X y Xc yc. blobs_data (run_input cfg (rt_checkbox rt) d) = Inr (X, y) \<and>
           circles_data (run_input cfg (rt_checkbox rt) d) = Inr (Xc, yc) \<and>
           rt_shown rt = displayed_page (run_input cfg (rt_checkbox rt) d) X y Xc yc \<and>
           drop (4 * (rt_runs rt - 1)) (figures (rt_plt rt)) = page_figures (rt_shown rt)"
  using rt_reachable_inv [OF assms(1)] assms(2) by (simp add: rt_inv_def)

text \<open>C17: The first two figures (the blobs with \<open>random_state=0\<close> and their fit) are the
  same on every run of a session with the same checkbox value.\<close>

theorem rerun_blob_figures_stable:
  assumes "rt_reachable cfg rt1" and "rt_reachable cfg rt2"
    and "0 < rt_runs rt1" and "0 < rt_runs rt2" and "rt_checkbox rt1 = rt_checkbox rt2"
  shows "take 2 (page_figures (rt_shown rt1)) = take 2 (page_figures (rt_shown rt2))"
proof -
  obtain d1 X1 y1 Xc1 yc1 where b1: "blobs_data (run_input cfg (rt_checkbox rt1) d1) = Inr (X1, y1)"
    and s1: "rt_shown rt1 = displayed_page (run_input cfg (rt_checkbox rt1) d1) X1 y1 Xc1 yc1"
    using rt_reachable_inv [OF assms(1)] assms(3) by (auto simp: rt_inv_def)
  obtain d2 X2 y2 Xc2 yc2 where b2: "blobs_data (run_input cfg (rt_checkbox rt2) d2) = Inr (X2, y2)"
    and s2: "rt_shown rt2 = displayed_page (run_input cfg (rt_checkbox rt2) d2) X2 y2 Xc2 yc2"
    using rt_reachable_inv [OF assms(2)] assms(4) by (auto simp: rt_inv_def)
  have "X2 = X1" and "y2 = y1"
    using b1 b2 assms(5) blobs_data_run_input [of cfg "rt_checkbox rt1" d1 d2] by simp_all
  then show ?thesis
    using s1 s2 assms(5) blob_figures_same_checkbox by simp
qed

text \<open>C18: The ring figure is not: \<open>make_circles\<close> gets no \<open>random_state\<close> (line 78),
  so two runs with the same checkbox value can show different rings.\<close>

theorem rerun_rings_may_change:
  "\<exists>rt1 rt2. rt_reachable cfg rt1 \<and> rt_reachable cfg rt2 \<and> rt_checkbox rt1 = rt_checkbox rt2 \<and>
     page_figures (rt_shown rt1) ! 2 \<noteq> page_figures (rt_shown rt2) ! 2"
proof -
  let ?d = "\<lambda>z. \<lparr>circle_shuffle = [0..<100], circle_normal = [z, 0] # replicate 99 [0, 0]\<rparr>"
  obtain X y Xc1 yc1 rt1 where
    c1: "circles_data (run_input cfg False (?d 0)) = Inr (Xc1, yc1)"
    and h1: "rt_handle cfg rt_init (Rerun (?d 0)) = Inr rt1"
    and s1: "rt_shown rt1 = displayed_page (run_input cfg False (?d 0)) X y Xc1 yc1"
    and k1: "rt_checkbox rt1 = False"
    by (rule rt_handle_run [of cfg rt_init "Rerun (?d 0)"]) (simp_all add: rt_init_def)
  obtain X' y' Xc2 yc2 rt2 where
    c2: "circles_data (run_input cfg False (?d 1)) = Inr (Xc2, yc2)"
    and h2: "rt_handle cfg rt_init (Rerun (?d 1)) = Inr rt2"
    and s2: "rt_shown rt2 = displayed_page (run_input cfg False (?d 1)) X' y' Xc2 yc2"
    and k2: "rt_checkbox rt2 = False"
    by (rule rt_handle_run [of cfg rt_init "Rerun (?d 1)"]) (simp_all add: rt_init_def)
  have r1: "rt_reachable cfg rt1" and r2: "rt_reachable cfg rt2"
    using rt_reachable.step [OF rt_reachable.start] h1 h2 by blast+
  have "col Xc1 0 ! 0 \<noteq> col Xc2 0 ! 0"
    using first_ring_point [OF c1] first_ring_point [OF c2] by simp
  moreover have "col Xc1 0 = col Xc2 0"
    if eq: "page_figures (rt_shown rt1) ! 2 = page_figures (rt_shown rt2) ! 2"
  proof -
    have "labelled_scatter Xc1 yc1 ''autumn'' = labelled_scatter Xc2 yc2 ''autumn''"
      using eq s1 s2 ring_figure_scatter [of _ X y Xc1 yc1] ring_figure_scatter [of _ X' y' Xc2 yc2]
      by metis
    then show ?thesis by (simp add: labelled_scatter_def)
  qed
  ultimately have "page_figures (rt_shown rt1) ! 2 \<noteq> page_figures (rt_shown rt2) ! 2"
    by auto
  then show ?thesis
    using r1 r2 k1 k2 by blast
qed

text \<open>C19: Every figure pyplot holds in a session has exactly one axes: drawing through
  \<open>plt.scatter\<close> and \<open>plt.gca()\<close> (lines 82--83) lands on the axes \<open>plt.subplots\<close>
  created at line 79 and never adds a second one, on the first run or any rerun.\<close>

theorem session_figures_single_axes:
  "rt_reachable cfg rt \<Longrightarrow> list_all (\<lambda>f. length (fig_axes f) = 1) (figures (rt_plt rt))"
proof (induction rule: rt_reachable.induct)
  case start
  show ?case by (simp add: rt_init_def pyplot_init_def)
next
  case (step rt ev rt')
  obtain X y Xc yc rt'' where h: "rt_handle cfg rt ev = Inr rt''"
    and sh: "rt_shown rt'' = displayed_page (run_input cfg (event_checkbox rt ev) (event_draws ev)) X y Xc yc"
    and fs: "figures (rt_plt rt'') = figures (rt_plt rt) @ page_figures (rt_shown rt'')"
    by (rule rt_handle_run [of cfg rt ev]) blast
  have "rt'' = rt'" using h step.hyps(2) by simp
  then show ?case
    using fs sh step.IH displayed_figures_single_axes by simp
qed

subsection \<open>Shapes, round trips and views\<close>

text \<open>C20: With well-formed ring draws, every artist of every figure the page shows has
  the shapes matplotlib requires (scatter arrays and colours of one length, one contour
  row per grid point of \<open>x\<close> and strictly increasing levels, 3-D arrays of one length),
  so no drawing call raises.\<close>

theorem page_artists_well_shaped:
  assumes "circle_draws_ok 100 (circle_rng inp)"
  shows "\<exists>s'. app inp session_init = Inr s' \<and> list_all figure_ok (page_figures (page s'))"
proof -
  obtain X y Xc yc s' where b: "blobs_data inp = Inr (X, y)" and c: "circles_data inp = Inr (Xc, yc)"
    and r: "app inp session_init = Inr s'" and p: "page s' = displayed_page inp X y Xc yc"
    by (rule app_run)
  have "list_all figure_ok (page_figures (page s'))"
    using p displayed_figures_ok blobs_data_lengths [OF b] circles_data_rows [OF assms c] by simp
  then show ?thesis
    using r by blast
qed

text \<open>C21: The scatters show exactly the data: zipping the \<open>X[:, 0]\<close> and
  \<open>X[:, 1]\<close> arrays of the first figure's scatter (line 44) back into points gives the
  blob dataset, coloured by its labels, and likewise for the rings in the third figure
  (line 82).\<close>

theorem scatters_show_datasets:
  assumes "blob_draws_ok 50 2 (blob_rng inp)" and "circle_draws_ok 100 (circle_rng inp)"
  shows "\<exists>X y Xc yc s' xs ys xs' ys'. blobs_data inp = Inr (X, y) \<and> circles_data inp = Inr (Xc, yc) \<and>
     app inp session_init = Inr s' \<and>
     hd (artists (hd (fig_axes (page_figures (page s') ! 0)))) = Scatter xs ys (Some y) 50 (Some ''winter'') False \<and>
     hd (artists (hd (fig_axes (page_figures (page s') ! 2)))) = Scatter xs' ys' (Some yc) 50 (Some ''autumn'') False \<and>
     map2 (\<lambda>a b. [a, b]) xs ys = X \<and> map2 (\<lambda>a b. [a, b]) xs' ys' = Xc"
proof -
  obtain X y Xc yc s' where b: "blobs_data inp = Inr (X, y)" and c: "circles_data inp = Inr (Xc, yc)"
    and r: "app inp session_init = Inr s'" and p: "page s' = displayed_page inp X y Xc yc"
    by (rule app_run)
  have f0: "hd (artists (hd (fig_axes (page_figures (page s') ! 0)))) =
      Scatter (col X 0) (col X 1) (Some y) 50 (Some ''winter'') False"
    using p by (simp add: page_figures_displayed blobs_axes_def labelled_scatter_def)
  have f2: "hd (artists (hd (fig_axes (page_figures (page s') ! 2)))) =
      Scatter (col Xc 0) (col Xc 1) (Some yc) 50 (Some ''autumn'') False"
    using p by (simp add: page_figures_displayed svc_overlay_def scatter_axes_def labelled_scatter_def)
  have "map2 (\<lambda>a b. [a, b]) (col X 0) (col X 1) = X"
    by (rule col_roundtrip [OF blobs_data_rows [OF assms(1) b]])
  moreover have "map2 (\<lambda>a b. [a, b]) (col Xc 0) (col Xc 1) = Xc"
    using col_roundtrip circles_data_rows [OF assms(2) c] by blast
  ultimately show ?thesis
    using b c r f0 f2 by blast
qed

text \<open>C22: No blob is clipped by the autoscaled views: every point of the blob dataset
  lies strictly inside the view of the second figure, and inside the first figure's
  view whenever the checkbox is clear (ticked, the x range is the fixed
  \<open>[-1, 3.5]\<close> of line 51 instead).\<close>

theorem views_contain_blobs:
  "\<exists>X y s'. blobs_data inp = Inr (X, y) \<and> app inp session_init = Inr s' \<and>
     list_all (in_view (hd (fig_axes (page_figures (page s') ! 1)))) X \<and>
     (\<not> show_lines inp \<longrightarrow> list_all (in_view (hd (fig_axes (page_figures (page s') ! 0)))) X)"
proof -
  obtain X y Xc yc s' where b: "blobs_data inp = Inr (X, y)"
    and r: "app inp session_init = Inr s'" and p: "page s' = displayed_page inp X y Xc yc"
    by (rule app_run)
  have v1: "in_view (hd (fig_axes (page_figures (page s') ! 1))) q \<longleftrightarrow> in_view (scatter_axes X y ''autumn'') q" for q
    using p by (simp add: page_figures_displayed svc_overlay_def in_view_def get_xlim_def get_ylim_def)
  have "list_all (in_view (scatter_axes X y ''autumn'')) X"
    by (auto simp: list_all_iff scatter_axes_def empty_axes_def intro: scatter_axes_in_view)
  then have "list_all (in_view (hd (fig_axes (page_figures (page s') ! 1)))) X"
    using v1 by (simp add: list_all_iff)
  moreover have "list_all (in_view (hd (fig_axes (page_figures (page s') ! 0)))) X"
    if "\<not> show_lines inp"
    using p that by (auto simp: page_figures_displayed blobs_axes_def empty_axes_def list_all_iff
        intro: scatter_axes_in_view)
  ultimately show ?thesis
    using b r by blast
qed

text \<open>C23: With the box ticked, the x range fixed at line 51 is exactly the extent of
  \<open>xfit\<close>, over which each of the three lines is drawn, so the lines run from edge to
  edge; the y range, still autoscaled, holds every point of the scatter and of the
  lines, so nothing of the first figure is clipped vertically.\<close>

theorem ticked_lines_span_view:
  assumes "show_lines inp"
  shows "\<exists>X y s' a. blobs_data inp = Inr (X, y) \<and> app inp session_init = Inr s' \<and>
     fig_axes (hd (page_figures (page s'))) = [a] \<and>
     get_xlim a = (hd xfit, last xfit) \<and>
     map artist_xdata (tl (artists a)) = [xfit, xfit, xfit] \<and>
     (\<forall>art\<in>set (artists a). \<forall>v\<in>set (artist_ydata art). fst (get_ylim a) < v \<and> v < snd (get_ylim a))"
proof -
  obtain X y Xc yc s' where b: "blobs_data inp = Inr (X, y)"
    and r: "app inp session_init = Inr s'" and p: "page s' = displayed_page inp X y Xc yc"
    by (rule app_run)
  let ?a = "blobs_axes inp X y"
  have f: "fig_axes (hd (page_figures (page s'))) = [?a]"
    using p by (simp add: page_figures_displayed)
  have x: "get_xlim ?a = (hd xfit, last xfit)"
    using assms by (simp add: blobs_axes_def get_xlim_def xfit_def hd_linspace last_linspace)
  have l: "map artist_xdata (tl (artists ?a)) = [xfit, xfit, xfit]"
    using assms by (simp add: blobs_axes_def candidate_lines_def candidate_line_def)
  have v: "\<forall>art\<in>set (artists ?a). \<forall>v\<in>set (artist_ydata art). fst (get_ylim ?a) < v \<and> v < snd (get_ylim ?a)"
    using get_ylim_contains [of ?a] by (simp add: blobs_axes_def empty_axes_def)
  show ?thesis
    by (rule exI [of _ X], rule exI [of _ y], rule exI [of _ s'], rule exI [of _ ?a]) (intro conjI; fact)
qed

subsection \<open>Witnesses\<close>

text \<open>Each witness applies its claim at a concrete page input, \<open>example_input\<close>,
  or at a session of \<open>example_config\<close> reached by six runs.\<close>

lemma example_blob_draws: "blob_draws_ok 50 2 (blob_rng example_input)"
  by (simp add: blob_draws_ok_def valid_perm_upt rows_dim_def list_all_iff)

lemma example_circle_draws: "circle_draws_ok 100 (circle_rng example_input)"
  by (simp add: circle_draws_ok_def valid_perm_upt rows_dim_def list_all_iff)

theorem rings_not_linearly_separable_witness:
  "\<exists>X y. circles_data example_input = Inr (X, y) \<and>
     0 < n_errors (circles_clf example_input X y) X y"
proof -
  obtain X y where d: "circles_data example_input = Inr (X, y)"
    using circles_data_Inr by blast
  have "0 < n_errors (circles_clf example_input X y) X y"
    using rings_not_linearly_separable [OF example_circle_draws _ d] by simp
  then show ?thesis
    using d by blast
qed

theorem lifted_rings_separable_witness:
  "\<exists>X y. circles_data example_input = Inr (X, y) \<and>
     n_errors (radial_plane (1 / 2)) (lifted_points X) y = 0"
proof -
  obtain X y where d: "circles_data example_input = Inr (X, y)"
    using circles_data_Inr by blast
  have "n_errors (radial_plane (1 / 2)) (lifted_points X) y = 0"
    using lifted_rings_separable [OF example_circle_draws _ d] by simp
  then show ?thesis
    using d by blast
qed

theorem blobs_data_shape_witness:
  "\<exists>X y. blobs_data example_input = Inr (X, y) \<and>
     length X = 50 \<and> count_list y 0 = 25 \<and> count_list y 1 = 25"
  using blobs_data_shape [OF example_blob_draws] by auto

theorem circles_data_shape_witness:
  "\<exists>X y. circles_data example_input = Inr (X, y) \<and>
     length X = 100 \<and> count_list y 0 = 50 \<and> count_list y 1 = 50"
  using circles_data_shape [OF example_circle_draws] by auto

theorem xfit_grid_witness: "xfit ! 1 - xfit ! 0 = 9 / 98"
  using xfit_grid by simp

theorem radial_feature_decreasing_witness:
  "(radial_feature [[1, 0], [0, 0]] ! 0 \<le> radial_feature [[1, 0], [0, 0]] ! 1 \<longleftrightarrow>
      row_sq_norm [0, 0] \<le> row_sq_norm [1, 0]) \<and> 0 < radial_feature [[1, 0], [0, 0]] ! 0"
  using radial_feature_decreasing [of 0 "[[1, 0], [0, 0]]" 1] by simp

lemma example_session:
  "\<exists>rt. rt_reachable example_config rt \<and> rt_runs rt = 6"
  using rt_run_from [OF rt_reachable.start, of example_config "replicate 6 (Rerun (circle_rng example_input))"]
  by (auto simp: rt_init_def)

theorem rerun_figures_accumulate_witness:
  "\<exists>rt. rt_reachable example_config rt \<and> rt_runs rt = 6 \<and> length (figures (rt_plt rt)) = 24"
proof -
  obtain rt where r: "rt_reachable example_config rt" and n: "rt_runs rt = 6"
    using example_session by blast
  then show ?thesis
    using rerun_figures_accumulate [OF r] by auto
qed

theorem rerun_shows_current_page_witness:
  "\<exists>rt d X y Xc yc. rt_reachable example_config rt \<and> rt_runs rt = 6 \<and>
     rt_shown rt = displayed_page (run_input example_config (rt_checkbox rt) d) X y Xc yc"
proof -
  obtain rt where r: "rt_reachable example_config rt" and n: "rt_runs rt = 6"
    using example_session by blast
  then show ?thesis
    using rerun_shows_current_page [OF r] by fastforce
qed

theorem rerun_blob_figures_stable_witness:
  "\<exists>rt1 rt2. rt_reachable example_config rt1 \<and> rt_reachable example_config rt2 \<and>
     rt_runs rt1 = 1 \<and> rt_runs rt2 = 2 \<and>
     take 2 (page_figures (rt_shown rt1)) = take 2 (page_figures (rt_shown rt2))"
proof -
  obtain rt1 where h1: "rt_handle example_config rt_init (Rerun (circle_rng example_input)) = Inr rt1"
    and n1: "rt_runs rt1 = 1" and k1: "rt_checkbox rt1 = False"
    by (rule rt_handle_run [of example_config rt_init "Rerun (circle_rng example_input)"])
      (simp_all add: rt_init_def)
  obtain rt2 where h2: "rt_handle example_config rt1 (Rerun (circle_rng example_input)) = Inr rt2"
    and n2: "rt_runs rt2 = 2" and k2: "rt_checkbox rt2 = False"
    by (rule rt_handle_run [of example_config rt1 "Rerun (circle_rng example_input)"])
      (simp_all add: n1 k1)
  have r1: "rt_reachable example_config rt1"
    by (rule rt_reachable.step [OF rt_reachable.start h1])
  have r2: "rt_reachable example_config rt2"
    by (rule rt_reachable.step [OF r1 h2])
  show ?thesis
    using rerun_blob_figures_stable [OF r1 r2] n1 n2 k1 k2 r1 r2 by auto
qed

theorem session_figures_single_axes_witness:
  "\<exists>rt. rt_reachable example_config rt \<and> rt_runs rt = 6 \<and>
     list_all (\<lambda>f. length (fig_axes f) = 1) (figures (rt_plt rt))"
proof -
  obtain rt where r: "rt_reachable example_config rt" and n: "rt_runs rt = 6"
    using example_session by blast
  then show ?thesis
    using session_figures_single_axes [OF r] by blast
qed

theorem page_artists_well_shaped_witness:
  "\<exists>s'. app example_input session_init = Inr s' \<and> list_all figure_ok (page_figures (page s'))"
  by (rule page_artists_well_shaped [OF example_circle_draws])

theorem scatters_show_datasets_witness:
  "\<exists>X y Xc yc s' xs ys. blobs_data example_input = Inr (X, y) \<and>
     circles_data example_input = Inr (Xc, yc) \<and> app example_input session_init = Inr s' \<and>
     hd (artists (hd (fig_axes (page_figures (page s') ! 0)))) = Scatter xs ys (Some y) 50 (Some ''winter'') False \<and>
     map2 (\<lambda>a b. [a, b]) xs ys = X"
  using scatters_show_datasets [OF example_blob_draws example_circle_draws] by blast

theorem views_contain_blobs_witness:
  "\<exists>X y s'. blobs_data example_input = Inr (X, y) \<and> app example_input session_init = Inr s' \<and>
     list_all (in_view (hd (fig_axes (page_figures (page s') ! 0)))) X"
  using views_contain_blobs [of example_input] by auto

theorem ticked_lines_span_view_witness:
  "\<exists>X y s' a. blobs_data (example_input\<lparr>show_lines := True\<rparr>) = Inr (X, y) \<and>
     app (example_input\<lparr>show_lines := True\<rparr>) session_init = Inr s' \<and>
     fig_axes (hd (page_figures (page s'))) = [a] \<and> get_xlim a = (hd xfit, last xfit)"
  using ticked_lines_span_view [of "example_input\<lparr>show_lines := True\<rparr>"] by auto

end
